theory Spec2Isabelle
  imports Main
begin

section \<open>JavaScript values, errors and string primitives\<close>

text \<open>
  The engine of \<^verbatim>\<open>src/src/selector.js\<close> runs in strict mode inside a browser. Every
  exception it can raise is a value of \<open>js_error\<close>; a function that may throw returns
  \<open>js_error + 'a\<close> with \<open>Inl\<close> for the exception. \<open>ParseError\<close> is the error of the
  specification's taxonomy; no path of the source constructs it.
\<close>

datatype js_error = TypeError | ReferenceError | ParseError string

text \<open>The values a property read \<^verbatim>\<open>element[attribute]\<close> can yield: strings, booleans,
  \<^verbatim>\<open>null\<close> and \<^verbatim>\<open>undefined\<close>. Properties that hold numbers or objects are outside the
  model.\<close>

datatype jsval = Undefined | Null | Str string | Bool bool

type_synonym 'a result = "js_error + 'a"

definition bind_r :: "'a result \<Rightarrow> ('a \<Rightarrow> 'b result) \<Rightarrow> 'b result" where
  "bind_r m f = (case m of Inl e \<Rightarrow> Inl e | Inr x \<Rightarrow> f x)"

text \<open>\<^verbatim>\<open>ToString\<close> of a value, as string concatenation applies it.\<close>

fun to_string :: "jsval \<Rightarrow> string" where
  "to_string Undefined = ''undefined''"
| "to_string Null = ''null''"
| "to_string (Str s) = s"
| "to_string (Bool b) = (if b then ''true'' else ''false'')"

text \<open>\<^verbatim>\<open>ToString\<close> of a selector value, which is a string or \<^verbatim>\<open>undefined\<close>.\<close>

fun opt_to_string :: "string option \<Rightarrow> string" where
  "opt_to_string None = ''undefined''"
| "opt_to_string (Some s) = s"

text \<open>\<^verbatim>\<open>ToBoolean\<close>.\<close>

fun truthy :: "jsval \<Rightarrow> bool" where
  "truthy Undefined = False"
| "truthy Null = False"
| "truthy (Str s) = (s \<noteq> [])"
| "truthy (Bool b) = b"

text \<open>\<^verbatim>\<open>s.indexOf(v)\<close>: the first position at which \<open>v\<close> occurs in \<open>s\<close>, or \<open>-1\<close>.\<close>

fun indexOf_from :: "nat \<Rightarrow> string \<Rightarrow> string \<Rightarrow> int" where
  "indexOf_from i [] v = (if v = [] then int i else - 1)"
| "indexOf_from i (c # s) v =
     (if take (length v) (c # s) = v then int i else indexOf_from (Suc i) s v)"

definition indexOf :: "string \<Rightarrow> string \<Rightarrow> int" where
  "indexOf s v = indexOf_from 0 s v"

text \<open>\<^verbatim>\<open>s.substring(i)\<close>: a negative start is clamped to 0, a start beyond the end to the length.\<close>

definition substring :: "string \<Rightarrow> int \<Rightarrow> string" where
  "substring s i = drop (nat (max 0 i)) s"

text \<open>
  Strings are sequences of code units below 256. \<^verbatim>\<open>toLowerCase\<close> there moves the
  letters \<^verbatim>\<open>A-Z\<close> and the capital letters of Latin-1 (\<open>0xC0\<close> to \<open>0xDE\<close> but the
  multiplication sign \<open>0xD7\<close>) up by 32.
\<close>

definition char_in :: "char \<Rightarrow> char \<Rightarrow> char \<Rightarrow> bool" where
  "char_in lo hi c = ((of_char lo :: nat) \<le> of_char c \<and> (of_char c :: nat) \<le> of_char hi)"

definition lower_char :: "char \<Rightarrow> char" where
  "lower_char c =
     (if char_in CHR ''A'' CHR ''Z'' c \<or> (char_in CHR 0xC0 CHR 0xDE c \<and> c \<noteq> CHR 0xD7)
      then char_of (of_char c + (32::nat)) else c)"

definition toLowerCase :: "string \<Rightarrow> string" where
  "toLowerCase s = map lower_char s"

text \<open>
  Both predicate tables are object literals, so a key that is not their own is looked up
  in \<^verbatim>\<open>Object.prototype\<close>. Called as a predicate, \<^verbatim>\<open>constructor\<close>, \<^verbatim>\<open>toString\<close>,
  \<^verbatim>\<open>toLocaleString\<close> and \<^verbatim>\<open>valueOf\<close> return an object or a non-empty string, which
  is truthy; \<^verbatim>\<open>hasOwnProperty\<close>, \<^verbatim>\<open>isPrototypeOf\<close>, \<^verbatim>\<open>propertyIsEnumerable\<close> and
  the two legacy lookups return a falsy value. None of them reads the element. Every
  other key yields \<^verbatim>\<open>undefined\<close> or a value that cannot be called with these arguments.
\<close>

definition object_prototype_member :: "string \<Rightarrow> bool option" where
  "object_prototype_member k =
     (if k \<in> {''constructor'', ''toString'', ''toLocaleString'', ''valueOf''} then Some True
      else if k \<in> {''hasOwnProperty'', ''isPrototypeOf'', ''propertyIsEnumerable'',
                     ''__lookupGetter__'', ''__lookupSetter__''} then Some False
      else None)"

section \<open>Attribute predicates\<close>

text \<open>
  An element is seen by the attribute predicates through its property reads only:
  \<open>el a\<close> is \<^verbatim>\<open>element[a]\<close>. A method call on a value that has no such method
  (\<^verbatim>\<open>undefined.indexOf\<close>, \<^verbatim>\<open>true.indexOf\<close>) is a \<open>TypeError\<close>; the guard
  \<^verbatim>\<open>attributeValue !== null\<close> of the source stops \<open>Null\<close> only.
\<close>

type_synonym element_props = "string \<Rightarrow> jsval"

fun attr_presence :: "element_props \<Rightarrow> string \<Rightarrow> string option \<Rightarrow> bool result" where
  "attr_presence el a v = Inr (el a \<noteq> Null)"

fun attr_equals :: "element_props \<Rightarrow> string \<Rightarrow> string option \<Rightarrow> bool result" where
  "attr_equals el a v =
     Inr (case v of None \<Rightarrow> el a = Undefined | Some s \<Rightarrow> el a = Str s)"

fun attr_includes :: "element_props \<Rightarrow> string \<Rightarrow> string option \<Rightarrow> bool result" where
  "attr_includes el a v =
     Inr (indexOf ('' '' @ to_string (el a) @ '' '') ('' '' @ opt_to_string v @ '' '') \<noteq> - 1)"

fun attr_prefix :: "element_props \<Rightarrow> string \<Rightarrow> string option \<Rightarrow> bool result" where
  "attr_prefix el a v =
     (case el a of
        Null \<Rightarrow> Inr False
      | Str s \<Rightarrow> Inr (indexOf s (opt_to_string v) = 0)
      | _ \<Rightarrow> Inl TypeError)"

fun attr_suffix :: "element_props \<Rightarrow> string \<Rightarrow> string option \<Rightarrow> bool result" where
  "attr_suffix el a v =
     (case el a of
        Null \<Rightarrow> Inr False
      | Str s \<Rightarrow>
          (case v of
             None \<Rightarrow> Inl TypeError
           | Some w \<Rightarrow> Inr (substring s (int (length s) - int (length w)) = w))
      | _ \<Rightarrow> Inl TypeError)"

fun attr_substring :: "element_props \<Rightarrow> string \<Rightarrow> string option \<Rightarrow> bool result" where
  "attr_substring el a v =
     (case el a of
        Null \<Rightarrow> Inr False
      | Str s \<Rightarrow> Inr (indexOf s (opt_to_string v) \<noteq> - 1)
      | _ \<Rightarrow> Inl TypeError)"

text \<open>
  \<^verbatim>\<open>attributeValue === value || attributeValue.indexOf(value + "-") === 0\<close>: when the
  property and the value are both \<^verbatim>\<open>undefined\<close> the comparison holds and \<^verbatim>\<open>indexOf\<close> is
  not reached.
\<close>

fun attr_dash :: "element_props \<Rightarrow> string \<Rightarrow> string option \<Rightarrow> bool result" where
  "attr_dash el a v =
     (case el a of
        Null \<Rightarrow> Inr False
      | Str s \<Rightarrow> Inr (v = Some s \<or> indexOf s (opt_to_string v @ ''-'') = 0)
      | Undefined \<Rightarrow> if v = None then Inr True else Inl TypeError
      | Bool b \<Rightarrow> Inl TypeError)"

text \<open>
  The table \<^verbatim>\<open>isMatchedByAttributeSelector\<close>, indexed by the operator string. An
  operator that is neither a key of the table nor a method of \<^verbatim>\<open>Object.prototype\<close>
  reads \<^verbatim>\<open>undefined\<close>, and calling it throws.
\<close>

definition isMatchedByAttributeSelector ::
  "string \<Rightarrow> element_props \<Rightarrow> string \<Rightarrow> string option \<Rightarrow> bool result" where
  "isMatchedByAttributeSelector oper el a v =
     (if oper = '''' then attr_presence el a v
      else if oper = ''='' then attr_equals el a v
      else if oper = ''~='' then attr_includes el a v
      else if oper = ''^='' then attr_prefix el a v
      else if oper = ''$='' then attr_suffix el a v
      else if oper = ''*='' then attr_substring el a v
      else if oper = ''|='' then attr_dash el a v
      else (case object_prototype_member oper of Some b \<Rightarrow> Inr b | None \<Rightarrow> Inl TypeError))"

section \<open>Character classes of the regular expressions\<close>

definition NUL :: char where "NUL = CHR 0x00"
definition BACKSLASH :: char where "BACKSLASH = CHR 0x5C"
definition NEWLINE :: char where "NEWLINE = CHR 0x0A"
definition DQUOTE :: char where "DQUOTE = CHR 0x22"
definition SQUOTE :: char where "SQUOTE = CHR 0x27"

text \<open>\<^verbatim>\<open>\s\<close> on the code units below 256: tab, LF, VT, FF, CR, space, NBSP.\<close>

definition is_space :: "char \<Rightarrow> bool" where
  "is_space c = ((of_char c :: nat) \<in> {0x09, 0x0A, 0x0B, 0x0C, 0x0D, 0x20, 0xA0})"

text \<open>The line terminators that \<^verbatim>\<open>.\<close> refuses: LF and CR.\<close>

definition is_line_terminator :: "char \<Rightarrow> bool" where
  "is_line_terminator c = ((of_char c :: nat) \<in> {0x0A, 0x0D})"

definition is_digit :: "char \<Rightarrow> bool" where
  "is_digit c = char_in CHR ''0'' CHR ''9'' c"

definition is_letter :: "char \<Rightarrow> bool" where
  "is_letter c = (char_in CHR ''a'' CHR ''z'' c \<or> char_in CHR ''A'' CHR ''Z'' c)"

text \<open>\<^verbatim>\<open>\w\<close> is \<^verbatim>\<open>[A-Za-z0-9_]\<close>.\<close>

definition is_word :: "char \<Rightarrow> bool" where
  "is_word c = (is_letter c \<or> is_digit c \<or> c = CHR ''_'')"

definition is_quote :: "char \<Rightarrow> bool" where
  "is_quote c = (c = SQUOTE \<or> c = DQUOTE)"

section \<open>Normalizer: the four steps of \<^verbatim>\<open>parseSelector\<close>\<close>

text \<open>
  Step 1, the regular expression
  \<^verbatim>\<open>/'[^'\\]*(?:\\.[^'\\]*)*'|"[^"\\]*(?:\\.[^"\\]*)*"/g\<close>.
  After an opening quote \<open>q\<close> the body is read up to the first unescaped \<open>q\<close>; a
  backslash takes the next character with it unless that is a line terminator (or the
  text ends), in which case there is no match at this quote. The character classes
  exclude the quote and the backslash, so the greedy match is the only one.
  \<open>scan_quoted q s\<close> is the body between the quotes, for \<open>s\<close> the text after the
  opening quote.
\<close>

fun scan_quoted :: "char \<Rightarrow> string \<Rightarrow> string option" where
  "scan_quoted q [] = None"
| "scan_quoted q [c] = (if c = q then Some [] else None)"
| "scan_quoted q (c # d # s) =
     (if c = q then Some []
      else if c = BACKSLASH then
        (if is_line_terminator d then None
         else map_option (\<lambda>b. c # d # b) (scan_quoted q s))
      else map_option (\<lambda>b. c # b) (scan_quoted q (d # s)))"

text \<open>\<^verbatim>\<open>match.replace(/\\(.)/g, "$1")\<close>: a backslash before a character other than a
  line terminator is dropped.\<close>

fun unescape :: "string \<Rightarrow> string" where
  "unescape (c # d # s) =
     (if c = BACKSLASH \<and> \<not> is_line_terminator d then d # unescape s
      else c # unescape (d # s))"
| "unescape s = s"

text \<open>
  The global replace with its callback: each match becomes the placeholder \<open>NUL\<close> and
  its text (quotes included, backslashes removed) is pushed onto \<^verbatim>\<open>strings\<close>. The
  counter is the number of characters of the current match still to be skipped.
\<close>

fun extract_strings :: "nat \<Rightarrow> string \<Rightarrow> string \<times> string list" where
  "extract_strings k [] = ([], [])"
| "extract_strings (Suc k) (c # s) = extract_strings k s"
| "extract_strings 0 (c # s) =
     (if is_quote c then
        (case scan_quoted c s of
           Some b \<Rightarrow>
             (let (t, ss) = extract_strings (Suc (length b)) s
              in (NUL # t, unescape (c # b @ [c]) # ss))
         | None \<Rightarrow> (let (t, ss) = extract_strings 0 s in (c # t, ss)))
      else (let (t, ss) = extract_strings 0 s in (c # t, ss)))"

text \<open>
  Step 2, \<^verbatim>\<open>.replace(/\s*([\s>+~(),]|^|$)\s*/g, "$1")\<close>. The leading \<^verbatim>\<open>\s*\<close> takes a
  whole run of whitespace and gives characters back until the group matches:
  \<^item> a run followed by one of \<^verbatim>\<open>>+~(),\<close> is replaced, with the whitespace after it, by
    that character;
  \<^item> a run that ends the text is replaced by nothing (\<^verbatim>\<open>$\<close>);
  \<^item> any other run, also one that starts the text, gives back its last character, which
    the class \<^verbatim>\<open>\s\<close> of the group then matches: the run is replaced by its last
    whitespace character;
  \<^item> the empty matches at \<^verbatim>\<open>^\<close> and \<^verbatim>\<open>$\<close> change nothing.
\<close>

datatype trim_state = Plain | Pending char | Skipping

definition is_punct :: "char \<Rightarrow> bool" where
  "is_punct c = (c \<in> set ''>+~(),'')"

fun trim_ws :: "trim_state \<Rightarrow> string \<Rightarrow> string" where
  "trim_ws st [] = []"
| "trim_ws st (c # s) =
     (if is_space c then
        (case st of Skipping \<Rightarrow> trim_ws Skipping s | _ \<Rightarrow> trim_ws (Pending c) s)
      else if is_punct c then c # trim_ws Skipping s
      else (case st of Pending w \<Rightarrow> w # c # trim_ws Plain s | _ \<Rightarrow> c # trim_ws Plain s))"

text \<open>
  Step 3, \<^verbatim>\<open>.replace(/([\s>+~,]|[^(]\+|^)([\[#.:])/g, "$1*$2")\<close>. The flag says whether
  the scan is at index 0, the only place where \<^verbatim>\<open>^\<close> matches; the alternatives are
  tried in the order written, and the scan resumes after each match.
\<close>

definition is_lead :: "char \<Rightarrow> bool" where
  "is_lead c = (is_space c \<or> c \<in> set ''>+~,'')"

definition is_simple_start :: "char \<Rightarrow> bool" where
  "is_simple_start c = (c \<in> set ''[#.:'')"

fun add_universal :: "bool \<Rightarrow> string \<Rightarrow> string" where
  "add_universal at0 [] = []"
| "add_universal at0 [c1] = (if at0 \<and> is_simple_start c1 then [CHR ''*'', c1] else [c1])"
| "add_universal at0 [c1, c2] =
     (if is_lead c1 \<and> is_simple_start c2 then [c1, CHR ''*'', c2]
      else if at0 \<and> is_simple_start c1 then CHR ''*'' # c1 # add_universal False [c2]
      else c1 # add_universal False [c2])"
| "add_universal at0 (c1 # c2 # c3 # s) =
     (if is_lead c1 \<and> is_simple_start c2 then c1 # CHR ''*'' # c2 # add_universal False (c3 # s)
      else if c1 \<noteq> CHR ''('' \<and> c2 = CHR ''+'' \<and> is_simple_start c3
        then c1 # c2 # CHR ''*'' # c3 # add_universal False s
      else if at0 \<and> is_simple_start c1 then CHR ''*'' # c1 # add_universal False (c2 # c3 # s)
      else c1 # add_universal False (c2 # c3 # s))"

text \<open>Step 4, \<^verbatim>\<open>.split(",")\<close>; the empty string splits into one empty piece.\<close>

fun split_on :: "char \<Rightarrow> string \<Rightarrow> string list" where
  "split_on d [] = [[]]"
| "split_on d (c # s) =
     (case split_on d s of
        p # ps \<Rightarrow> if c = d then [] # p # ps else (c # p) # ps
      | [] \<Rightarrow> [[c]])"

definition normalize :: "string \<Rightarrow> string list \<times> string list" where
  "normalize selector =
     (let (t, strings) = extract_strings 0 selector
      in (split_on CHR '','' (add_universal True (trim_ws Plain t)), strings))"

section \<open>Parser\<close>

record attribute_selector =
  attribute :: string
  operator :: string
  attr_value :: "string option"

record pseudo_selector =
  name :: string
  parameter :: "string option"

text \<open>\<open>idSelector\<close> is a string; \<^verbatim>\<open>find\<close> overwrites it with \<^verbatim>\<open>null\<close>, here \<open>None\<close>.\<close>

record compound_selector =
  typeSelector :: string
  idSelector :: "string option"
  attributeSelectors :: "attribute_selector list"
  pseudoSelectors :: "pseudo_selector list"

record complex_selector =
  combinators :: "char list"
  compoundSelectors :: "compound_selector list"

text \<open>
  \<^verbatim>\<open>/[ >+~](?![=\d])/\<close>: one of the four combinator characters, unless the next
  character is \<^verbatim>\<open>=\<close> or a digit. \<open>s\<close> is the text after the character.
\<close>

definition is_combinator_at :: "char \<Rightarrow> string \<Rightarrow> bool" where
  "is_combinator_at c s =
     (c \<in> set '' >+~'' \<and> (case s of [] \<Rightarrow> True | d # _ \<Rightarrow> \<not> (d = CHR ''='' \<or> is_digit d)))"

text \<open>\<^verbatim>\<open>selector.match(/[ >+~](?![=\d])/g) || []\<close>.\<close>

fun match_combinators :: "string \<Rightarrow> char list" where
  "match_combinators [] = []"
| "match_combinators (c # s) =
     (if is_combinator_at c s then c # match_combinators s else match_combinators s)"

text \<open>\<^verbatim>\<open>selector.split(/[ >+~](?![=\d])/)\<close>.\<close>

fun split_combinators :: "string \<Rightarrow> string list" where
  "split_combinators [] = [[]]"
| "split_combinators (c # s) =
     (case split_combinators s of
        p # ps \<Rightarrow> if is_combinator_at c s then [] # p # ps else (c # p) # ps
      | [] \<Rightarrow> [[c]])"

text \<open>\<^verbatim>\<open>compoundSelector.replace(/([\[:.#])/g, "\n$1").split("\n")\<close>.\<close>

definition simple_selectors :: "string \<Rightarrow> string list" where
  "simple_selectors cs =
     split_on NEWLINE (concat (map (\<lambda>c. if is_simple_start c then [NEWLINE, c] else [c]) cs))"

text \<open>
  \<^verbatim>\<open>String.prototype.replace\<close> with a string pattern expands \<^verbatim>\<open>$$\<close>, \<^verbatim>\<open>$&\<close>,
  \<^verbatim>\<open>$`\<close> and \<^verbatim>\<open>$'\<close> in the replacement; there are no captures, so every other
  \<^verbatim>\<open>$\<close> stays.
\<close>

fun get_substitution :: "string \<Rightarrow> string \<Rightarrow> string \<Rightarrow> string \<Rightarrow> string" where
  "get_substitution m b a (c # d # r) =
     (if c = CHR ''$'' \<and> d = CHR ''$'' then CHR ''$'' # get_substitution m b a r
      else if c = CHR ''$'' \<and> d = CHR ''&'' then m @ get_substitution m b a r
      else if c = CHR ''$'' \<and> d = CHR 0x60 then b @ get_substitution m b a r
      else if c = CHR ''$'' \<and> d = SQUOTE then a @ get_substitution m b a r
      else c # get_substitution m b a (d # r))"
| "get_substitution m b a r = r"

text \<open>\<^verbatim>\<open>simpleSelector.replace("\0", v)\<close>: the first placeholder only.\<close>

definition replace_placeholder :: "string \<Rightarrow> string \<Rightarrow> string" where
  "replace_placeholder s v =
     (let b = takeWhile (\<lambda>c. c \<noteq> NUL) s; a = drop (Suc (length b)) s
      in if NUL \<in> set s then b @ get_substitution [NUL] b a v @ a else s)"

text \<open>\<^verbatim>\<open>strings.pop()\<close>: the last element, \<^verbatim>\<open>undefined\<close> on an empty array.\<close>

definition pop :: "'a list \<Rightarrow> 'a option \<times> 'a list" where
  "pop xs = (if xs = [] then (None, []) else (Some (last xs), butlast xs))"

text \<open>
  \<^verbatim>\<open>/^\[(-?[a-zA-Z_][\w-]*)(?:([~^$*|]?=)['"](.*)['"])?\]$/\<close> on a token that starts
  with \<^verbatim>\<open>[\<close>. The name is the longest run of name characters (what follows it is
  never one); the value is everything between the quote after the operator and the
  quote before the final \<^verbatim>\<open>]\<close>, and must hold no line terminator.
\<close>

definition is_name_start :: "char \<Rightarrow> bool" where
  "is_name_start c = (is_letter c \<or> c = CHR ''_'')"

definition is_name_char :: "char \<Rightarrow> bool" where
  "is_name_char c = (is_word c \<or> c = CHR ''-'')"

definition attribute_name :: "string \<Rightarrow> (string \<times> string) option" where
  "attribute_name s =
     (case s of
        c # r \<Rightarrow>
          (if c = CHR ''-'' then
             (case r of
                d # r' \<Rightarrow>
                  if is_name_start d
                  then Some (c # d # takeWhile is_name_char r', dropWhile is_name_char r')
                  else None
              | [] \<Rightarrow> None)
           else if is_name_start c
             then Some (c # takeWhile is_name_char r, dropWhile is_name_char r)
           else None)
      | [] \<Rightarrow> None)"

definition quoted_value :: "string \<Rightarrow> string option" where
  "quoted_value m =
     (case m of
        q # r \<Rightarrow>
          (let n = length r in
           if is_quote q \<and> 2 \<le> n \<and> r ! (n - 1) = CHR '']'' \<and> is_quote (r ! (n - 2))
              \<and> \<not> (\<exists>c \<in> set (take (n - 2) r). is_line_terminator c)
           then Some (take (n - 2) r) else None)
      | [] \<Rightarrow> None)"

definition attribute_match :: "string \<Rightarrow> attribute_selector option" where
  "attribute_match tok =
     (case tok of
        c # s \<Rightarrow>
          (if c \<noteq> CHR ''['' then None else
           (case attribute_name s of
              None \<Rightarrow> None
            | Some (nm, r) \<Rightarrow>
                (if r = '']'' then Some \<lparr>attribute = nm, operator = [], attr_value = None\<rparr>
                 else (case r of
                    o1 # o2 # m \<Rightarrow>
                      (if o1 = CHR ''='' then
                         map_option (\<lambda>v. \<lparr>attribute = nm, operator = ''='', attr_value = Some v\<rparr>)
                           (quoted_value (o2 # m))
                       else if o1 \<in> set ''~^$*|'' \<and> o2 = CHR ''='' then
                         map_option (\<lambda>v. \<lparr>attribute = nm, operator = [o1, o2], attr_value = Some v\<rparr>)
                           (quoted_value m)
                       else None)
                  | _ \<Rightarrow> None))))
      | [] \<Rightarrow> None)"

text \<open>
  \<^verbatim>\<open>/^:([\w_-]+)(?:\(((?:\d*n(?:[+-]\d+)?)|(?:[a-zA-Z]+))\))?$/\<close> on a token that starts
  with \<^verbatim>\<open>:\<close>. The parameter is an \<^verbatim>\<open>an+b\<close> expression or a run of letters.
\<close>

definition is_anb :: "string \<Rightarrow> bool" where
  "is_anb p =
     (case dropWhile is_digit p of
        c # r \<Rightarrow>
          c = CHR ''n'' \<and>
          (case r of
             [] \<Rightarrow> True
           | g # ds \<Rightarrow> (g = CHR ''+'' \<or> g = CHR ''-'') \<and> ds \<noteq> [] \<and> list_all is_digit ds)
      | [] \<Rightarrow> False)"

definition pseudo_match :: "string \<Rightarrow> pseudo_selector option" where
  "pseudo_match tok =
     (case tok of
        c # s \<Rightarrow>
          (let nm = takeWhile is_name_char s; r = dropWhile is_name_char s in
           if c \<noteq> CHR '':'' \<or> nm = [] then None
           else if r = [] then Some \<lparr>name = nm, parameter = None\<rparr>
           else if hd r = CHR ''('' \<and> 2 \<le> length r \<and> last r = CHR '')''
             then (let p = butlast (tl r) in
                   if is_anb p \<or> (p \<noteq> [] \<and> list_all is_letter p)
                   then Some \<lparr>name = nm, parameter = Some p\<rparr> else None)
           else None)
      | [] \<Rightarrow> None)"

text \<open>
  The body of the loop of \<^verbatim>\<open>parseCompoundSelector\<close> for one simple selector. The state
  is the string table and the compound selector built so far. \<^verbatim>\<open>strings\<close> is
  \<open>None\<close> when the caller passed no table (the \<^verbatim>\<open>:not\<close> predicate), and then
  \<^verbatim>\<open>strings.pop()\<close> throws. A token that fails its regular expression leaves
  \<^verbatim>\<open>null\<close> in \<^verbatim>\<open>attribute\<close> or \<^verbatim>\<open>pseudo\<close>, and reading \<^verbatim>\<open>[1]\<close> of it is a
  \<open>TypeError\<close>.
\<close>

definition restore_placeholder ::
  "string list option \<Rightarrow> string \<Rightarrow> (string \<times> string list option) result" where
  "restore_placeholder strings tok =
     (if NUL \<in> set tok then
        (case strings of
           None \<Rightarrow> Inl TypeError
         | Some ss \<Rightarrow>
             (case pop ss of
                (v, ss') \<Rightarrow>
                  Inr (replace_placeholder tok (opt_to_string v), Some ss')))
      else Inr (tok, strings))"

definition parse_simple_selector ::
  "string \<Rightarrow> compound_selector \<Rightarrow> compound_selector result" where
  "parse_simple_selector tok cs =
     (case tok of
        [] \<Rightarrow> Inr cs
      | c # r \<Rightarrow>
          if c = CHR ''['' then
            (case attribute_match tok of
               None \<Rightarrow> Inl TypeError
             | Some a \<Rightarrow> Inr (cs\<lparr>attributeSelectors := attributeSelectors cs @ [a]\<rparr>))
          else if c = CHR '':'' then
            (case pseudo_match tok of
               None \<Rightarrow> Inl TypeError
             | Some p \<Rightarrow> Inr (cs\<lparr>pseudoSelectors := pseudoSelectors cs @ [p]\<rparr>))
          else if c = CHR ''.'' then
            Inr (cs\<lparr>attributeSelectors := attributeSelectors cs @
                   [\<lparr>attribute = ''className'', operator = ''~='', attr_value = Some r\<rparr>]\<rparr>)
          else if c = CHR ''#'' then Inr (cs\<lparr>idSelector := Some r\<rparr>)
          else Inr cs)"

fun parse_simple_selectors ::
  "string list \<Rightarrow> string list option \<Rightarrow> compound_selector \<Rightarrow>
   (compound_selector \<times> string list option) result" where
  "parse_simple_selectors [] strings cs = Inr (cs, strings)"
| "parse_simple_selectors (tok # toks) strings cs =
     (case restore_placeholder strings tok of
        Inl e \<Rightarrow> Inl e
      | Inr (tok', strings') \<Rightarrow>
          (case parse_simple_selector tok' cs of
             Inl e \<Rightarrow> Inl e
           | Inr cs' \<Rightarrow> parse_simple_selectors toks strings' cs'))"

text \<open>\<^verbatim>\<open>parseCompoundSelector(compoundSelector, strings)\<close>; the table is returned with
  what the call popped off it.\<close>

definition parseCompoundSelector ::
  "string \<Rightarrow> string list option \<Rightarrow> (compound_selector \<times> string list option) result" where
  "parseCompoundSelector compoundSelector strings =
     (case simple_selectors compoundSelector of
        [] \<Rightarrow> Inl TypeError
      | t # toks \<Rightarrow>
          parse_simple_selectors toks strings
            \<lparr>typeSelector = t, idSelector = Some [], attributeSelectors = [],
             pseudoSelectors = []\<rparr>)"

fun parse_compounds ::
  "string list \<Rightarrow> string list option \<Rightarrow> (compound_selector list \<times> string list option) result" where
  "parse_compounds [] strings = Inr ([], strings)"
| "parse_compounds (p # ps) strings =
     (case parseCompoundSelector p strings of
        Inl e \<Rightarrow> Inl e
      | Inr (c, strings') \<Rightarrow>
          (case parse_compounds ps strings' of
             Inl e \<Rightarrow> Inl e
           | Inr (cs, strings'') \<Rightarrow> Inr (c # cs, strings'')))"

fun parse_selectors ::
  "string list \<Rightarrow> string list option \<Rightarrow> complex_selector list result" where
  "parse_selectors [] strings = Inr []"
| "parse_selectors (sel # sels) strings =
     (case parse_compounds (split_combinators sel) strings of
        Inl e \<Rightarrow> Inl e
      | Inr (cs, strings') \<Rightarrow>
          (case parse_selectors sels strings' of
             Inl e \<Rightarrow> Inl e
           | Inr ps \<Rightarrow>
               Inr (\<lparr>combinators = match_combinators sel, compoundSelectors = cs\<rparr> # ps)))"

definition parseSelector :: "string \<Rightarrow> complex_selector list result" where
  "parseSelector selector =
     (case normalize selector of (selectors, strings) \<Rightarrow> parse_selectors selectors (Some strings))"

section \<open>The host document\<close>

text \<open>
  The document the engine queries is a tree. A tree node carries its \<^verbatim>\<open>nodeType\<close>, its
  \<^verbatim>\<open>nodeName\<close>, the other properties a read \<^verbatim>\<open>element[name]\<close> can see (\<^verbatim>\<open>id\<close>,
  \<^verbatim>\<open>className\<close>, \<^verbatim>\<open>lang\<close>, \<^verbatim>\<open>href\<close>, \<^verbatim>\<open>disabled\<close>, ...; a name that is not listed
  reads \<open>Undefined\<close>) and its child nodes. The root of the tree is the document node
  itself (\<^verbatim>\<open>nodeType\<close> 9).

  A node reference is the path from the node up to the document: the index of the node
  among the children of its parent, then the reference of the parent. \<open>[]\<close> is
  \<^verbatim>\<open>document\<close>. A nullable reference is a \<open>node option\<close>, \<open>None\<close> being \<^verbatim>\<open>null\<close>.
  Reading a property of \<^verbatim>\<open>null\<close> is a \<open>TypeError\<close>, and so is reading the data of a
  reference that denotes no node of the tree.
\<close>

datatype dnode = DNode (d_nodeType: nat) (d_nodeName: string) (d_props: "(string \<times> jsval) list")
  (d_children: "dnode list")

type_synonym node = "nat list"

text \<open>
  The environment of a call: the tree, whether \<^verbatim>\<open>document.location\<close> is an object (it is
  in a browsing context), and the properties of the global object that the source reads
  or writes without declaring them (\<^verbatim>\<open>element\<close>, \<^verbatim>\<open>tagName\<close>, \<^verbatim>\<open>current\<close>): in a
  page that defines none of them \<open>globals\<close> is empty, and strict mode makes each such
  access a \<open>ReferenceError\<close>.
\<close>

record dom =
  root :: dnode
  location :: bool
  globals :: "(string \<times> jsval) list"

fun descend :: "dnode \<Rightarrow> nat list \<Rightarrow> dnode option" where
  "descend x [] = Some x"
| "descend x (i # is) =
     (if i < length (d_children x) then descend (d_children x ! i) is else None)"

definition node_at :: "dom \<Rightarrow> node \<Rightarrow> dnode option" where
  "node_at d n = descend (root d) (rev n)"

definition deref :: "dom \<Rightarrow> node option \<Rightarrow> dnode result" where
  "deref d el =
     (case el of
        None \<Rightarrow> Inl TypeError
      | Some n \<Rightarrow> (case node_at d n of None \<Rightarrow> Inl TypeError | Some x \<Rightarrow> Inr x))"

definition read_prop :: "dnode \<Rightarrow> string \<Rightarrow> jsval" where
  "read_prop x a = (case map_of (d_props x) a of None \<Rightarrow> Undefined | Some v \<Rightarrow> v)"

definition document :: node where
  "document = []"

text \<open>\<^verbatim>\<open>node.parentNode\<close>; the document has none.\<close>

fun parentNode :: "node \<Rightarrow> node option" where
  "parentNode [] = None"
| "parentNode (i # p) = Some p"

text \<open>The number of child nodes of a node.\<close>

definition child_count :: "dom \<Rightarrow> node \<Rightarrow> nat" where
  "child_count d n = (case node_at d n of None \<Rightarrow> 0 | Some x \<Rightarrow> length (d_children x))"

text \<open>\<^verbatim>\<open>node.childNodes\<close>, in document order.\<close>

definition childNodes :: "dom \<Rightarrow> node \<Rightarrow> node list" where
  "childNodes d n = map (\<lambda>j. j # n) [0 ..< child_count d n]"

text \<open>
  The nodes that repeated \<^verbatim>\<open>.previousSibling\<close> visits until it reads \<^verbatim>\<open>null\<close>, nearest
  first, and likewise for \<^verbatim>\<open>.nextSibling\<close>.
\<close>

fun preceding_siblings :: "node \<Rightarrow> node list" where
  "preceding_siblings [] = []"
| "preceding_siblings (i # p) = map (\<lambda>j. j # p) (rev [0 ..< i])"

fun following_siblings :: "dom \<Rightarrow> node \<Rightarrow> node list" where
  "following_siblings d [] = []"
| "following_siblings d (i # p) = map (\<lambda>j. j # p) [Suc i ..< child_count d p]"

text \<open>All nodes below a node, in document order, each with its data.\<close>

fun subtree_nodes :: "node \<Rightarrow> nat \<Rightarrow> dnode list \<Rightarrow> (node \<times> dnode) list" where
  "subtree_nodes p i [] = []"
| "subtree_nodes p i (DNode t nm ps ch # ks) =
     (i # p, DNode t nm ps ch) # subtree_nodes (i # p) 0 ch @ subtree_nodes p (Suc i) ks"

definition descendants :: "dom \<Rightarrow> node \<Rightarrow> (node \<times> dnode) list" where
  "descendants d n =
     (case node_at d n of None \<Rightarrow> [] | Some x \<Rightarrow> subtree_nodes n 0 (d_children x))"

text \<open>
  \<^verbatim>\<open>context.getElementsByTagName(tag)\<close> of an HTML document, converted to an array: the
  element descendants in document order, all of them for \<^verbatim>\<open>*\<close>, else those whose name
  is \<open>tag\<close> up to letter case. Only elements and the document have the method.
\<close>

definition getElementsByTagName :: "dom \<Rightarrow> node \<Rightarrow> string \<Rightarrow> node list result" where
  "getElementsByTagName d ctx tag =
     (case node_at d ctx of
        None \<Rightarrow> Inl TypeError
      | Some x \<Rightarrow>
          if d_nodeType x = 1 \<or> d_nodeType x = 9 then
            Inr (map fst (filter (\<lambda>(n, y). d_nodeType y = 1 \<and>
                   (tag = ''*'' \<or> toLowerCase (d_nodeName y) = toLowerCase tag)) (descendants d ctx)))
          else Inl TypeError)"

text \<open>\<^verbatim>\<open>document.getElementById(id)\<close>: the first element in document order with that id.\<close>

definition getElementById :: "dom \<Rightarrow> string \<Rightarrow> node option" where
  "getElementById d i =
     (case filter (\<lambda>(n, y). d_nodeType y = 1 \<and>  read_prop y ''id'' = Str i) (descendants d document) of
        [] \<Rightarrow> None
      | (n, y) # _ \<Rightarrow> Some n)"

section \<open>Structural counting: \<^verbatim>\<open>isNthChild\<close>\<close>

text \<open>
  A JavaScript number that the counting meets is \<^verbatim>\<open>NaN\<close>, an infinity or an integer
  that a double represents exactly. \<open>to_double\<close> is the number value of a mathematical
  integer: exact up to 53 bits, beyond that rounded to 53 significant bits, ties to the
  even neighbour, and infinite from \<open>2^1024\<close> on.
\<close>

datatype jsnum = Fin int | PosInf | NegInf | NaN

fun bit_length :: "nat \<Rightarrow> nat" where
  "bit_length n = (if n = 0 then 0 else Suc (bit_length (n div 2)))"

declare bit_length.simps [simp del]

definition to_double :: "int \<Rightarrow> jsnum" where
  "to_double n =
     (let m = nat \<bar>n\<bar>; k = bit_length m in
      if k \<le> 53 then Fin n
      else
        (let sh = k - 53; q = m div 2 ^ sh; r = m mod 2 ^ sh; half = 2 ^ (sh - 1);
             q' = (if half < r \<or> (r = half \<and> odd q) then q + 1 else q);
             v = q' * 2 ^ sh
         in if 2 ^ 1024 \<le> v then (if n < 0 then NegInf else PosInf)
            else Fin (if n < 0 then - int v else int v)))"

definition digit_val :: "char \<Rightarrow> int" where
  "digit_val c = int (of_char c) - 48"

definition hex_val :: "char \<Rightarrow> int option" where
  "hex_val c =
     (if is_digit c then Some (digit_val c)
      else if char_in CHR ''a'' CHR ''f'' c then Some (int (of_char c) - 87)
      else if char_in CHR ''A'' CHR ''F'' c then Some (int (of_char c) - 55)
      else None)"

text \<open>
  \<^verbatim>\<open>parseInt(s)\<close> with no radix: leading whitespace, a sign, then the longest prefix of
  decimal digits, or of hexadecimal digits after \<^verbatim>\<open>0x\<close>; \<^verbatim>\<open>NaN\<close> when there is none.
  \<open>parse_digits\<close> is the mathematical integer of the digits, \<open>None\<close> without a digit; the
  result is its number value. (The language lets an implementation drop decimal digits
  after the twentieth; the model keeps them.)
\<close>

definition parse_digits :: "int \<Rightarrow> (char \<Rightarrow> int option) \<Rightarrow> string \<Rightarrow> int option" where
  "parse_digits radix dv s =
     (let ds = takeWhile (\<lambda>c. dv c \<noteq> None) s
      in if ds = [] then None else Some (foldl (\<lambda>acc c. acc * radix + the (dv c)) 0 ds))"

definition parse_unsigned :: "string \<Rightarrow> int option" where
  "parse_unsigned s =
     (case s of
        c # x # r \<Rightarrow>
          if c = CHR ''0'' \<and> (x = CHR ''x'' \<or> x = CHR ''X'') then parse_digits 16 hex_val r
          else parse_digits 10 (\<lambda>c. if is_digit c then Some (digit_val c) else None) s
      | _ \<Rightarrow> parse_digits 10 (\<lambda>c. if is_digit c then Some (digit_val c) else None) s)"

definition parseInt :: "string \<Rightarrow> jsnum" where
  "parseInt s =
     (case dropWhile is_space s of
        [] \<Rightarrow> NaN
      | c # r \<Rightarrow>
          (case (if c = CHR ''-'' then map_option uminus (parse_unsigned r)
                 else if c = CHR ''+'' then parse_unsigned r
                 else parse_unsigned (c # r)) of
             None \<Rightarrow> NaN
           | Some n \<Rightarrow> to_double n))"

text \<open>\<^verbatim>\<open>counter - b\<close> for an integer counter: the difference is rounded to a double.\<close>

definition js_sub :: "int \<Rightarrow> jsnum \<Rightarrow> jsnum" where
  "js_sub counter b =
     (case b of
        Fin b' \<Rightarrow> to_double (counter - b')
      | PosInf \<Rightarrow> NegInf
      | NegInf \<Rightarrow> PosInf
      | NaN \<Rightarrow> NaN)"

text \<open>\<^verbatim>\<open>x % a\<close>: \<^verbatim>\<open>NaN\<close> when an operand is \<^verbatim>\<open>NaN\<close>, the dividend is infinite or the
  divisor is zero; the dividend itself for an infinite divisor; else the remainder with
  the sign of the dividend, which is exact.\<close>

definition js_rem :: "jsnum \<Rightarrow> jsnum \<Rightarrow> jsnum" where
  "js_rem x a =
     (case x of
        Fin x' \<Rightarrow>
          (case a of
             Fin a' \<Rightarrow> if a' = 0 then NaN else Fin (sgn x' * (\<bar>x'\<bar> mod \<bar>a'\<bar>))
           | NaN \<Rightarrow> NaN
           | _ \<Rightarrow> Fin x')
      | _ \<Rightarrow> NaN)"

text \<open>\<^verbatim>\<open>counter < a\<close> and \<^verbatim>\<open>counter === b\<close> for an integer counter.\<close>

definition js_less :: "int \<Rightarrow> jsnum \<Rightarrow> bool" where
  "js_less counter a = (case a of Fin a' \<Rightarrow> counter < a' | PosInf \<Rightarrow> True | _ \<Rightarrow> False)"

definition js_equal :: "int \<Rightarrow> jsnum \<Rightarrow> bool" where
  "js_equal counter b = (case b of Fin b' \<Rightarrow> counter = b' | _ \<Rightarrow> False)"

text \<open>
  The final test of \<^verbatim>\<open>isNthChild\<close>,
  \<^verbatim>\<open>(counter < a && counter === b) || ((counter - b) % a === 0)\<close>.
\<close>

definition nth_test :: "int \<Rightarrow> jsnum \<Rightarrow> jsnum \<Rightarrow> bool" where
  "nth_test counter a b =
     ((js_less counter a \<and> js_equal counter b) \<or> js_rem (js_sub counter b) a = Fin 0)"

text \<open>
  \<^verbatim>\<open>parameters = parameter.split("n")\<close>, then
  \<^verbatim>\<open>a = parameters[0] ? parseInt(parameters[0]) : 0\<close> and the same for \<^verbatim>\<open>b\<close> from
  \<^verbatim>\<open>parameters[1]\<close>: an empty or missing piece gives 0.
\<close>

definition nth_coefficient :: "string list \<Rightarrow> nat \<Rightarrow> jsnum" where
  "nth_coefficient parameters k =
     (if k < length parameters \<and> parameters ! k \<noteq> [] then parseInt (parameters ! k) else Fin 0)"

text \<open>
  The counting loops. A sibling counts when it is an element and, in the branch taken
  for a truthy \<^verbatim>\<open>tagName\<close>, when \<^verbatim>\<open>tagName\<close> is \<^verbatim>\<open>*\<close> or equals its name up to
  letter case; \<^verbatim>\<open>tagName.toLowerCase()\<close> throws for a truthy value that is not a string.
\<close>

fun count_siblings :: "dom \<Rightarrow> jsval \<Rightarrow> node list \<Rightarrow> int \<Rightarrow> int result" where
  "count_siblings d tagName [] counter = Inr counter"
| "count_siblings d tagName (s # ss) counter =
     (case deref d (Some s) of
        Inl e \<Rightarrow> Inl e
      | Inr x \<Rightarrow>
          if d_nodeType x \<noteq> 1 then count_siblings d tagName ss counter
          else if \<not> truthy tagName then count_siblings d tagName ss (counter + 1)
          else (case tagName of
                  Str t \<Rightarrow>
                    if t = ''*'' \<or> toLowerCase t = toLowerCase (d_nodeName x)
                    then count_siblings d tagName ss (counter + 1)
                    else count_siblings d tagName ss counter
                | _ \<Rightarrow> Inl TypeError))"

definition isNthChild ::
  "dom \<Rightarrow> node option \<Rightarrow> string option \<Rightarrow> bool \<Rightarrow> jsval \<Rightarrow> bool result" where
  "isNthChild d element param reverse tagName =
     (case param of
        None \<Rightarrow> Inl TypeError
      | Some prm \<Rightarrow>
          if prm = ''n'' then Inr True
          else
            (let parameters = split_on CHR ''n''
                   (if prm = ''odd'' then ''2n+1'' else if prm = ''even'' then ''2n'' else prm);
                 a = nth_coefficient parameters 0;
                 b = nth_coefficient parameters 1
             in case element of
                  None \<Rightarrow> Inl TypeError
                | Some el \<Rightarrow>
                    (case deref d (Some el) of
                       Inl e \<Rightarrow> Inl e
                     | Inr x \<Rightarrow>
                         (case count_siblings d tagName
                                 (if reverse then following_siblings d el
                                  else preceding_siblings el) 1 of
                            Inl e \<Rightarrow> Inl e
                          | Inr counter \<Rightarrow> Inr (nth_test counter a b)))))"

section \<open>Pseudo-class predicates\<close>

text \<open>\<^verbatim>\<open>each\<close> over a node list that stops at the first element node.\<close>

fun first_element :: "dom \<Rightarrow> node list \<Rightarrow> node option result" where
  "first_element d [] = Inr None"
| "first_element d (n # ns) =
     (case deref d (Some n) of
        Inl e \<Rightarrow> Inl e
      | Inr x \<Rightarrow> if d_nodeType x = 1 then Inr (Some n) else first_element d ns)"

text \<open>\<^verbatim>\<open>element.parentNode.childNodes\<close>.\<close>

definition parent_children :: "dom \<Rightarrow> node option \<Rightarrow> node list result" where
  "parent_children d element =
     (case deref d element of
        Inl e \<Rightarrow> Inl e
      | Inr x \<Rightarrow>
          (case parentNode (the element) of
             None \<Rightarrow> Inl TypeError
           | Some p \<Rightarrow> Inr (childNodes d p)))"

text \<open>A read of a global variable that the source never declares.\<close>

definition global_var :: "dom \<Rightarrow> string \<Rightarrow> jsval result" where
  "global_var d v = (case map_of (globals d) v of None \<Rightarrow> Inl ReferenceError | Some x \<Rightarrow> Inr x)"

text \<open>
  The ancestor walk of \<^verbatim>\<open>:lang\<close>, from \<open>current\<close>: it stops without a match at the
  child of the document, and \<^verbatim>\<open>current.lang.toLowerCase()\<close> throws where \<^verbatim>\<open>lang\<close> is
  not a string. Started at the document, whose parent is \<^verbatim>\<open>null\<close>, the walk throws on
  its second round unless the first one matched.
\<close>

fun lang_walk :: "dom \<Rightarrow> node \<Rightarrow> string \<Rightarrow> bool result" where
  "lang_walk d [] lang =
     (case deref d (Some []) of
        Inl e \<Rightarrow> Inl e
      | Inr x \<Rightarrow>
          (case read_prop x ''lang'' of
             Str s \<Rightarrow> if toLowerCase s = lang then Inr True else Inl TypeError
           | _ \<Rightarrow> Inl TypeError))"
| "lang_walk d (i # p) lang =
     (if p = document then Inr False
      else (case deref d (Some (i # p)) of
              Inl e \<Rightarrow> Inl e
            | Inr x \<Rightarrow>
                (case read_prop x ''lang'' of
                   Str s \<Rightarrow> if toLowerCase s = lang then Inr True else lang_walk d p lang
                 | _ \<Rightarrow> Inl TypeError)))"

text \<open>
  The members of the table \<^verbatim>\<open>isMatchedByPseudoSelector\<close> other than \<^verbatim>\<open>not\<close>. Each is
  called with the element, the parameter and the type selector, and declares two
  parameters at most, so the type selector is dropped. The result is the truth value that
  \<^verbatim>\<open>!\<close> sees.
  \<^item> \<^verbatim>\<open>nth-of-type\<close> and \<^verbatim>\<open>nth-last-of-type\<close> pass the undeclared variable \<^verbatim>\<open>tagName\<close>.
  \<^item> \<^verbatim>\<open>only-of-type\<close> names its second parameter \<^verbatim>\<open>tagName\<close>, so it holds the
    pseudo-class parameter, and reads the undeclared variable \<^verbatim>\<open>current\<close>, whose
    \<^verbatim>\<open>nodeName\<close> no global value of the model has.
  \<^item> \<^verbatim>\<open>only-child\<close> leaves its loop at the first element child, as \<^verbatim>\<open>first-child\<close>
    does.
  \<^item> \<^verbatim>\<open>active\<close>, \<^verbatim>\<open>hover\<close> and \<^verbatim>\<open>focus\<close> compare the element with its own
    \<^verbatim>\<open>activeElement\<close> or \<^verbatim>\<open>hoverElement\<close> property, which no property value of the
    model equals.
  \<^item> \<^verbatim>\<open>target\<close> calls \<^verbatim>\<open>substring\<close> on \<^verbatim>\<open>document.location\<close>, an object without that
    method, when the element has a truthy id.
  \<^item> A name that is no key of the table but a method of \<^verbatim>\<open>Object.prototype\<close> finds
    that method; any other name finds \<^verbatim>\<open>undefined\<close>, and the call throws.
\<close>

definition pseudo_table ::
  "dom \<Rightarrow> string \<Rightarrow> node option \<Rightarrow> string option \<Rightarrow> bool result" where
  "pseudo_table d nm element param =
     (if nm = ''root'' then
        bind_r (deref d element) (\<lambda>x. Inr (toLowerCase (d_nodeName x) = ''html''))
      else if nm = ''nth-child'' then isNthChild d element param False Undefined
      else if nm = ''nth-last-child'' then isNthChild d element param True Undefined
      else if nm = ''nth-of-type'' then
        bind_r (global_var d ''tagName'') (\<lambda>t. isNthChild d element param False t)
      else if nm = ''nth-last-of-type'' then
        bind_r (global_var d ''tagName'') (\<lambda>t. isNthChild d element param True t)
      else if nm = ''first-child'' \<or> nm = ''only-child'' then
        bind_r (parent_children d element) (\<lambda>ks.
        bind_r (first_element d ks) (\<lambda>f. Inr (element = f)))
      else if nm = ''last-child'' then
        bind_r (parent_children d element) (\<lambda>ks.
        bind_r (first_element d (rev ks)) (\<lambda>f. Inr (element = f)))
      else if nm = ''only-of-type'' then
        bind_r (parent_children d element) (\<lambda>ks.
        bind_r (first_element d ks) (\<lambda>f.
          case f of
            None \<Rightarrow> Inr False
          | Some n \<Rightarrow>
              (case param of
                 None \<Rightarrow> Inl TypeError
               | Some t \<Rightarrow>
                   if t = ''*'' then Inr (element = f)
                   else bind_r (global_var d ''current'') (\<lambda>c. Inl TypeError))))
      else if nm = ''empty'' then
        bind_r (deref d element) (\<lambda>x. Inr (d_children x = []))
      else if nm = ''link'' then
        bind_r (deref d element) (\<lambda>x.
          Inr (toLowerCase (d_nodeName x) = ''a'' \<and> truthy (read_prop x ''href'')))
      else if nm = ''visited'' then
        bind_r (deref d element) (\<lambda>x.
          Inr (toLowerCase (d_nodeName x) = ''a'' \<and> truthy (read_prop x ''href'')
               \<and> truthy (read_prop x ''visited'')))
      else if nm = ''active'' \<or> nm = ''hover'' \<or> nm = ''focus'' then
        bind_r (deref d element) (\<lambda>x. Inr False)
      else if nm = ''target'' then
        bind_r (deref d element) (\<lambda>x.
          if \<not> truthy (read_prop x ''id'') then Inr False
          else if location d then Inl TypeError
          else Inr False)
      else if nm = ''lang'' then
        (case param of
           None \<Rightarrow> Inl TypeError
         | Some p \<Rightarrow>
             (case element of
                None \<Rightarrow> Inl TypeError
              | Some el \<Rightarrow> lang_walk d el (toLowerCase p)))
      else if nm = ''enabled'' then
        bind_r (deref d element) (\<lambda>x.
          Inr (read_prop x ''disabled'' = Bool False \<and> read_prop x ''type'' \<noteq> Str ''hidden''))
      else if nm = ''disabled'' then
        bind_r (deref d element) (\<lambda>x. Inr (read_prop x ''disabled'' = Bool True))
      else if nm = ''checked'' then
        bind_r (deref d element) (\<lambda>x. Inr (read_prop x ''checked'' = Bool True))
      else (case object_prototype_member nm of Some b \<Rightarrow> Inr b | None \<Rightarrow> Inl TypeError))"

section \<open>Matcher\<close>

text \<open>\<^verbatim>\<open>each\<close> over the attribute selectors, stopping at the first one that fails. The
  predicates of the table read \<^verbatim>\<open>element[attribute]\<close>, which throws on \<^verbatim>\<open>null\<close>.\<close>

fun match_attributes :: "dom \<Rightarrow> node option \<Rightarrow> attribute_selector list \<Rightarrow> bool result" where
  "match_attributes d element [] = Inr True"
| "match_attributes d element (a # as) =
     (case (case object_prototype_member (operator a) of
              Some b \<Rightarrow> Inr b
            | None \<Rightarrow>
                bind_r (deref d element) (\<lambda>x.
                  isMatchedByAttributeSelector (operator a) (read_prop x) (attribute a)
                    (attr_value a))) of
        Inl e \<Rightarrow> Inl e
      | Inr b \<Rightarrow> if b then match_attributes d element as else Inr False)"

text \<open>The id and type checks that open \<^verbatim>\<open>isMatchedByCompoundSelector\<close>.\<close>

definition match_id :: "dom \<Rightarrow> node option \<Rightarrow> string option \<Rightarrow> bool result" where
  "match_id d element ids =
     (case ids of
        None \<Rightarrow> Inr True
      | Some i \<Rightarrow>
          if i = [] then Inr True
          else bind_r (deref d element) (\<lambda>x. Inr (read_prop x ''id'' = Str i)))"

definition match_type :: "dom \<Rightarrow> node option \<Rightarrow> string \<Rightarrow> bool result" where
  "match_type d element t =
     (if t = ''*'' then Inr True
      else bind_r (deref d element) (\<lambda>x. Inr (toLowerCase t = toLowerCase (d_nodeName x))))"

text \<open>The size of the parameters of a list of pseudo selectors: the recursion through
  \<^verbatim>\<open>:not\<close> parses a parameter into a compound selector of smaller size.\<close>

definition pseudo_size :: "pseudo_selector list \<Rightarrow> nat" where
  "pseudo_size ps = sum_list (map (\<lambda>p. Suc (case parameter p of None \<Rightarrow> 0 | Some s \<Rightarrow> length s)) ps)"

text \<open>
  What the termination of the matcher needs: a compound selector parsed without a string
  table holds pseudo selectors whose parameters are, together, shorter than the text.
\<close>

lemma split_on_nonempty: "split_on d s \<noteq> []"
  by (induction s) (auto split: list.splits)

lemma split_on_length: "sum_list (map length (split_on d s)) = length (filter (\<lambda>c. c \<noteq> d) s)"
  using split_on_nonempty by (induction s) (auto split: list.splits)

lemma mark_filter:
  "filter (\<lambda>c. c \<noteq> NEWLINE) (concat (map (\<lambda>c. if is_simple_start c then [NEWLINE, c] else [c]) cs))
   = filter (\<lambda>c. c \<noteq> NEWLINE) cs"
  by (induction cs) auto

lemma simple_selectors_length: "sum_list (map length (simple_selectors cs)) \<le> length cs"
  unfolding simple_selectors_def split_on_length mark_filter by simp

lemma pseudo_match_size:
  "pseudo_match tok = Some p \<Longrightarrow> Suc (case parameter p of None \<Rightarrow> 0 | Some s \<Rightarrow> length s) \<le> length tok"
  using length_dropWhile_le [of is_name_char "tl tok"]
  by (auto simp: pseudo_match_def Let_def split: list.splits if_splits)

lemma parse_simple_selector_size:
  "parse_simple_selector tok cs = Inr cs' \<Longrightarrow>
   pseudo_size (pseudoSelectors cs') \<le> pseudo_size (pseudoSelectors cs) + length tok"
  by (auto simp: parse_simple_selector_def pseudo_size_def split: list.splits if_splits option.splits
      dest: pseudo_match_size)

lemma restore_placeholder_None:
  "restore_placeholder None tok = Inr (tok', s') \<Longrightarrow> tok' = tok \<and> s' = None"
  by (auto simp: restore_placeholder_def split: if_splits)

lemma parse_simple_selectors_size:
  "parse_simple_selectors toks None cs = Inr (cs', s') \<Longrightarrow>
   pseudo_size (pseudoSelectors cs') \<le> pseudo_size (pseudoSelectors cs) + sum_list (map length toks)"
proof (induction toks arbitrary: cs)
  case Nil
  then show ?case by simp
next
  case (Cons tok toks)
  then show ?case
    by (fastforce split: sum.splits prod.splits dest!: restore_placeholder_None parse_simple_selector_size)
qed

lemma parseCompoundSelector_size:
  "parseCompoundSelector prm None = Inr (c, s') \<Longrightarrow> pseudo_size (pseudoSelectors c) \<le> length prm"
  using simple_selectors_length [of prm]
  by (auto simp: parseCompoundSelector_def pseudo_size_def split: list.splits
      dest!: parse_simple_selectors_size)

text \<open>
  \<^verbatim>\<open>isMatchedByCompoundSelector\<close>, with the loop over the pseudo selectors as
  \<open>match_pseudos\<close>. The \<^verbatim>\<open>not\<close> member of the table calls
  \<^verbatim>\<open>parseCompoundSelector(parameter)\<close> with no string table and negates the match of
  the result.
\<close>

function isMatchedByCompoundSelector :: "dom \<Rightarrow> node option \<Rightarrow> compound_selector \<Rightarrow> bool result"
  and match_pseudos :: "dom \<Rightarrow> node option \<Rightarrow> pseudo_selector list \<Rightarrow> bool result"
where
  "isMatchedByCompoundSelector d element cs =
     (case match_id d element (idSelector cs) of
        Inl e \<Rightarrow> Inl e
      | Inr b1 \<Rightarrow>
          if \<not> b1 then Inr False
          else (case match_type d element (typeSelector cs) of
                  Inl e \<Rightarrow> Inl e
                | Inr b2 \<Rightarrow>
                    if \<not> b2 then Inr False
                    else (case match_attributes d element (attributeSelectors cs) of
                            Inl e \<Rightarrow> Inl e
                          | Inr b3 \<Rightarrow>
                              if \<not> b3 then Inr False
                              else match_pseudos d element (pseudoSelectors cs))))"
| "match_pseudos d element [] = Inr True"
| "match_pseudos d element (p # ps) =
     (case (if name p = ''not'' then
              (case parameter p of
                 None \<Rightarrow> Inl TypeError
               | Some prm \<Rightarrow>
                   (case parseCompoundSelector prm None of
                      Inl e \<Rightarrow> Inl e
                    | Inr (c, strings) \<Rightarrow>
                        (case isMatchedByCompoundSelector d element c of
                           Inl e \<Rightarrow> Inl e
                         | Inr b \<Rightarrow> Inr (\<not> b))))
            else pseudo_table d (name p) element (parameter p)) of
        Inl e \<Rightarrow> Inl e
      | Inr b \<Rightarrow> if b then match_pseudos d element ps else Inr False)"
  by pat_completeness auto
termination
  apply (relation "measure (\<lambda>x. case x of
           Inl (d, el, cs) \<Rightarrow> 2 * pseudo_size (pseudoSelectors cs) + 1
         | Inr (d, el, ps) \<Rightarrow> 2 * pseudo_size ps)")
     apply (auto simp: pseudo_size_def dest!: parseCompoundSelector_size)
  done

text \<open>
  The descendant combinator: \<^verbatim>\<open>while ((current = current.parentNode) !== document)\<close>
  with a \<^verbatim>\<open>break\<close> at the first ancestor that matches; reaching the document is the
  failure. The result is the new \<^verbatim>\<open>current\<close> and whether the step succeeded. From the
  document itself the parent is \<^verbatim>\<open>null\<close>, which is not the document: the body runs on
  \<^verbatim>\<open>null\<close>, and a second round reads \<^verbatim>\<open>null.parentNode\<close>.
\<close>

fun ancestor_walk :: "dom \<Rightarrow> node \<Rightarrow> compound_selector \<Rightarrow> (node option \<times> bool) result" where
  "ancestor_walk d [] cs =
     (case isMatchedByCompoundSelector d None cs of
        Inl e \<Rightarrow> Inl e
      | Inr b \<Rightarrow> if b then Inr (None, True) else Inl TypeError)"
| "ancestor_walk d (i # p) cs =
     (if p = document then Inr (Some document, False)
      else (case isMatchedByCompoundSelector d (Some p) cs of
              Inl e \<Rightarrow> Inl e
            | Inr b \<Rightarrow> if b then Inr (Some p, True) else ancestor_walk d p cs))"

text \<open>
  One round of the loop of \<^verbatim>\<open>isMatchedByComplexSelector\<close>: the \<^verbatim>\<open>switch\<close> on
  \<^verbatim>\<open>complexSelector.combinators[index]\<close>, which is \<open>None\<close> when the index is beyond the
  combinators. The loop of \<^verbatim>\<open>+\<close> and of \<^verbatim>\<open>~\<close> stops at the nearest preceding element:
  its condition holds for non-elements only, so the test of the compound selector in the
  body of the \<^verbatim>\<open>~\<close> loop never runs.
\<close>

definition combinator_step ::
  "dom \<Rightarrow> node option \<Rightarrow> compound_selector \<Rightarrow> char option \<Rightarrow> (node option \<times> bool) result" where
  "combinator_step d current cs k =
     (if k = Some CHR '' '' then
        (case current of None \<Rightarrow> Inl TypeError | Some c \<Rightarrow> ancestor_walk d c cs)
      else if k = Some CHR ''>'' then
        (case current of
           None \<Rightarrow> Inl TypeError
         | Some c \<Rightarrow>
             (case parentNode c of
                None \<Rightarrow> Inr (None, False)
              | Some p \<Rightarrow>
                  bind_r (isMatchedByCompoundSelector d (Some p) cs) (\<lambda>b. Inr (Some p, b))))
      else if k = Some CHR ''+'' then
        (case current of
           None \<Rightarrow> Inl TypeError
         | Some c \<Rightarrow>
             bind_r (first_element d (preceding_siblings c)) (\<lambda>s.
               case s of
                 None \<Rightarrow> Inr (None, False)
               | Some n \<Rightarrow>
                   bind_r (isMatchedByCompoundSelector d (Some n) cs) (\<lambda>b. Inr (Some n, b))))
      else if k = Some CHR ''~'' then
        (case current of
           None \<Rightarrow> Inl TypeError
         | Some c \<Rightarrow>
             bind_r (first_element d (preceding_siblings c)) (\<lambda>s.
               case s of
                 None \<Rightarrow> Inr (None, False)
               | Some n \<Rightarrow> Inr (Some n, True)))
      else Inr (current, True))"

text \<open>\<^verbatim>\<open>each(complexSelector.compoundSelectors, ..., true)\<close>: the index runs from the last
  compound selector down to the first, and the loop ends at the first failed step.\<close>

fun complex_loop ::
  "dom \<Rightarrow> char list \<Rightarrow> compound_selector list \<Rightarrow> nat \<Rightarrow> node option \<Rightarrow> bool result" where
  "complex_loop d ks cs 0 current = Inr True"
| "complex_loop d ks cs (Suc i) current =
     (case combinator_step d current (cs ! i) (if i < length ks then Some (ks ! i) else None) of
        Inl e \<Rightarrow> Inl e
      | Inr (current', ok) \<Rightarrow> if ok then complex_loop d ks cs i current' else Inr False)"

definition isMatchedByComplexSelector :: "dom \<Rightarrow> node \<Rightarrow> complex_selector \<Rightarrow> bool result" where
  "isMatchedByComplexSelector d element sel =
     complex_loop d (combinators sel) (compoundSelectors sel) (length (compoundSelectors sel))
       (Some element)"

section \<open>Query engine\<close>

text \<open>
  \<^verbatim>\<open>isDescendantOf\<close>: \<^verbatim>\<open>current\<close> starts at the parent of the descendant, and the loop
  moves to the next parent before it compares. The second argument is a context of
  \<^verbatim>\<open>find\<close>, which is a node or, for an index that an array-like context does not have,
  \<^verbatim>\<open>undefined\<close> (\<open>None\<close>), which no node equals.
\<close>

fun ancestor_from :: "node \<Rightarrow> node option \<Rightarrow> bool" where
  "ancestor_from [] element = False"
| "ancestor_from (j # q) element = (Some q = element \<or> ancestor_from q element)"

definition descendant_walk :: "dom \<Rightarrow> node option \<Rightarrow> node option \<Rightarrow> bool result" where
  "descendant_walk d descendant element =
     (case descendant of
        None \<Rightarrow> Inl TypeError
      | Some [] \<Rightarrow> Inl TypeError
      | Some (i # p) \<Rightarrow> Inr (ancestor_from p element))"

definition isDescendantOf :: "dom \<Rightarrow> node option \<Rightarrow> node \<Rightarrow> bool result" where
  "isDescendantOf d descendant element = descendant_walk d descendant (Some element)"

text \<open>The context argument of \<^verbatim>\<open>find\<close> and \<^verbatim>\<open>match\<close>: absent, a node, a selector string,
  or a list of nodes. The resolved contexts are a list whose entries are nodes or
  \<^verbatim>\<open>undefined\<close> (\<open>None\<close>).\<close>

datatype context_arg = NoContext | NodeContext node | SelectorContext string
  | ListContext "node list"

fun filter_compound :: "dom \<Rightarrow> compound_selector \<Rightarrow> node list \<Rightarrow> node list result" where
  "filter_compound d lastCS [] = Inr []"
| "filter_compound d lastCS (n # ns) =
     (case isMatchedByCompoundSelector d (Some n) lastCS of
        Inl e \<Rightarrow> Inl e
      | Inr b \<Rightarrow>
          (case filter_compound d lastCS ns of
             Inl e \<Rightarrow> Inl e
           | Inr r \<Rightarrow> Inr (if b then n # r else r)))"

fun filter_complex :: "dom \<Rightarrow> complex_selector \<Rightarrow> node list \<Rightarrow> node list result" where
  "filter_complex d sel [] = Inr []"
| "filter_complex d sel (n # ns) =
     (case isMatchedByComplexSelector d n sel of
        Inl e \<Rightarrow> Inl e
      | Inr b \<Rightarrow>
          (case filter_complex d sel ns of
             Inl e \<Rightarrow> Inl e
           | Inr r \<Rightarrow> Inr (if b then n # r else r)))"

text \<open>
  The candidates of one context. With a truthy id selector the source assigns to the
  undeclared variable \<^verbatim>\<open>element\<close>, which strict mode refuses unless the global object
  has that property; it then clears the id selector of the shared compound selector, so
  a later context takes the other branch. The compound selector is returned as the call
  leaves it. In the other branch \<^verbatim>\<open>context.getElementsByTagName\<close> throws for an
  \<^verbatim>\<open>undefined\<close> context.
\<close>

definition candidates ::
  "dom \<Rightarrow> compound_selector \<Rightarrow> node option \<Rightarrow> (node list \<times> compound_selector) result" where
  "candidates d lastCS ctx =
     (if idSelector lastCS \<noteq> None \<and> idSelector lastCS \<noteq> Some [] then
        (if map_of (globals d) ''element'' = None then Inl ReferenceError
         else
           (let element = getElementById d (the (idSelector lastCS));
                lastCS' = lastCS\<lparr>idSelector := None\<rparr>
            in case isMatchedByCompoundSelector d element lastCS' of
                 Inl e \<Rightarrow> Inl e
               | Inr b \<Rightarrow>
                   if \<not> b then Inr ([], lastCS')
                   else (case descendant_walk d element ctx of
                           Inl e \<Rightarrow> Inl e
                         | Inr b' \<Rightarrow>
                             Inr (if b' then (case element of Some n \<Rightarrow> [n] | None \<Rightarrow> []) else [],
                                  lastCS'))))
      else
        (case ctx of
           None \<Rightarrow> Inl TypeError
         | Some c \<Rightarrow>
             (case getElementsByTagName d c (typeSelector lastCS) of
                Inl e \<Rightarrow> Inl e
              | Inr ns \<Rightarrow>
                  (case filter_compound d lastCS ns of
                     Inl e \<Rightarrow> Inl e
                   | Inr r \<Rightarrow> Inr (r, lastCS)))))"

fun find_contexts ::
  "dom \<Rightarrow> complex_selector \<Rightarrow> compound_selector \<Rightarrow> node option list \<Rightarrow> node list result"
  where
  "find_contexts d sel lastCS [] = Inr []"
| "find_contexts d sel lastCS (c # cs) =
     (case candidates d lastCS c of
        Inl e \<Rightarrow> Inl e
      | Inr (els, lastCS') \<Rightarrow>
          (case filter_complex d sel els of
             Inl e \<Rightarrow> Inl e
           | Inr m \<Rightarrow>
               (case find_contexts d sel lastCS' cs of
                  Inl e \<Rightarrow> Inl e
                | Inr r \<Rightarrow> Inr (m @ r))))"

text \<open>
  The loop over the parsed selectors: \<^verbatim>\<open>compoundSelectors.pop()\<close> detaches the last
  compound selector, and the complex selector keeps the others and all its combinators.
\<close>

fun find_selectors ::
  "dom \<Rightarrow> complex_selector list \<Rightarrow> node option list \<Rightarrow> node list result" where
  "find_selectors d [] contexts = Inr []"
| "find_selectors d (sel # sels) contexts =
     (case pop (compoundSelectors sel) of
        (None, rest) \<Rightarrow> if contexts = [] then find_selectors d sels contexts else Inl TypeError
      | (Some lastCS, rest) \<Rightarrow>
          (case find_contexts d (sel\<lparr>compoundSelectors := rest\<rparr>) lastCS contexts of
             Inl e \<Rightarrow> Inl e
           | Inr m \<Rightarrow>
               (case find_selectors d sels contexts of
                  Inl e \<Rightarrow> Inl e
                | Inr r \<Rightarrow> Inr (m @ r))))"

text \<open>
  The nodes that have a \<^verbatim>\<open>length\<close> are the character data nodes (text, CDATA section,
  processing instruction, comment): it is the length of their \<^verbatim>\<open>data\<close>, which the tree
  keeps as the property \<^verbatim>\<open>data\<close> (empty when not listed).
\<close>

definition character_data_length :: "dnode \<Rightarrow> nat option" where
  "character_data_length x =
     (if d_nodeType x \<in> {3, 4, 7, 8}
      then Some (case read_prop x ''data'' of Str s \<Rightarrow> length s | _ \<Rightarrow> 0)
      else None)"

text \<open>
  The contexts of a call: \<^verbatim>\<open>[document]\<close> unless the context argument is an element
  (\<^verbatim>\<open>nodeType === 1\<close>), a string, resolved by \<^verbatim>\<open>find(context)\<close>, or has a
  \<^verbatim>\<open>length\<close>. A node list is taken as it is. A character data node has a \<^verbatim>\<open>length\<close>
  and no indexed property, so it is taken as that many \<^verbatim>\<open>undefined\<close> contexts. Any other
  node, such as the document, leaves the default.
\<close>

definition resolve_context :: "dom \<Rightarrow> context_arg \<Rightarrow> node option list result" where
  "resolve_context d ctx =
     (case ctx of
        NoContext \<Rightarrow> Inr [Some document]
      | NodeContext n \<Rightarrow>
          bind_r (deref d (Some n)) (\<lambda>x.
            Inr (if d_nodeType x = 1 then [Some n]
                 else (case character_data_length x of
                         Some k \<Rightarrow> replicate k None
                       | None \<Rightarrow> [Some document])))
      | SelectorContext s \<Rightarrow>
          bind_r (parseSelector s) (\<lambda>ps.
          bind_r (find_selectors d ps [Some document]) (\<lambda>ns. Inr (map Some ns)))
      | ListContext ns \<Rightarrow> Inr (map Some ns))"

text \<open>\<^verbatim>\<open>find(selector, context)\<close>: the selector is parsed before the context is looked at.\<close>

definition find_sel :: "dom \<Rightarrow> string \<Rightarrow> context_arg \<Rightarrow> node list result" where
  "find_sel d selector ctx =
     bind_r (parseSelector selector) (\<lambda>ps.
     bind_r (resolve_context d ctx) (\<lambda>contexts. find_selectors d ps contexts))"

fun match_contexts ::
  "dom \<Rightarrow> node \<Rightarrow> complex_selector \<Rightarrow> node option list \<Rightarrow> bool result" where
  "match_contexts d element sel [] = Inr False"
| "match_contexts d element sel (c # cs) =
     (case isMatchedByComplexSelector d element sel of
        Inl e \<Rightarrow> Inl e
      | Inr b \<Rightarrow> if b then Inr True else match_contexts d element sel cs)"

fun match_selectors ::
  "dom \<Rightarrow> node \<Rightarrow> complex_selector list \<Rightarrow> node option list \<Rightarrow> bool result" where
  "match_selectors d element [] contexts = Inr False"
| "match_selectors d element (sel # sels) contexts =
     (case match_contexts d element sel contexts of
        Inl e \<Rightarrow> Inl e
      | Inr b \<Rightarrow> if b then Inr True else match_selectors d element sels contexts)"

text \<open>\<^verbatim>\<open>match(element, selector, context)\<close>: the context is resolved first, then the
  selector is parsed; the parsed selector keeps its last compound selector.\<close>

definition match_sel :: "dom \<Rightarrow> node \<Rightarrow> string \<Rightarrow> context_arg \<Rightarrow> bool result" where
  "match_sel d element selector ctx =
     bind_r (resolve_context d ctx) (\<lambda>contexts.
     bind_r (parseSelector selector) (\<lambda>ps. match_selectors d element ps contexts))"

section \<open>The data model of the specification\<close>

text \<open>
  Two definitions that follow the words of the specification, to be compared with the
  source. The first is the text that a sequence of compound selectors makes when
  combinator \<open>i\<close> joins compound selector \<open>i\<close> and compound selector \<open>i + 1\<close>.
\<close>

fun join_compounds :: "string list \<Rightarrow> char list \<Rightarrow> string" where
  "join_compounds [] ks = []"
| "join_compounds [p] ks = p"
| "join_compounds (p # q # ps) [] = p"
| "join_compounds (p # q # ps) (k # ks) = p @ k # join_compounds (q # ps) ks"

text \<open>
  The second matches a chain from right to left: the list holds each compound selector
  with the combinator to its right, rightmost pair first, and every step starts from the
  node that the step to its right has reached.
\<close>

fun match_chain :: "dom \<Rightarrow> (compound_selector \<times> char) list \<Rightarrow> node option \<Rightarrow> bool result" where
  "match_chain d [] current = Inr True"
| "match_chain d ((c, k) # rest) current =
     (case combinator_step d current c (Some k) of
        Inl e \<Rightarrow> Inl e
      | Inr (current', ok) \<Rightarrow> if ok then match_chain d rest current' else Inr False)"

section \<open>The token grammar of the specification\<close>

text \<open>
  The specification has every token that does not fit its grammar signal an error. The
  definitions below say which selector strings hold such a token, in the words of the
  specification, to be compared with what \<^verbatim>\<open>parseSelector\<close> does. A token is rejected
  when it starts with \<^verbatim>\<open>[\<close> and does not fit the attribute grammar, or starts with
  \<^verbatim>\<open>:\<close> and does not fit the pseudo-class grammar.
\<close>

definition rejected_token :: "string \<Rightarrow> bool" where
  "rejected_token tok =
     (case tok of
        [] \<Rightarrow> False
      | c # r \<Rightarrow>
          (c = CHR ''['' \<and> attribute_match tok = None)
          \<or> (c = CHR '':'' \<and> pseudo_match tok = None))"

text \<open>The tokens of the normalized selectors after the type selector of each compound
  selector, in the order of the text.\<close>

definition compound_tokens :: "string list \<Rightarrow> string list" where
  "compound_tokens pieces = concat (map (\<lambda>piece. tl (simple_selectors piece)) pieces)"

definition selector_tokens :: "string list \<Rightarrow> string list" where
  "selector_tokens sels = concat (map (\<lambda>sel. compound_tokens (split_combinators sel)) sels)"

text \<open>The tokens with their placeholders restored from the string table, and the string
  table that is left.\<close>

fun restore_all :: "string list \<Rightarrow> string list \<Rightarrow> string list" where
  "restore_all [] ss = []"
| "restore_all (tok # toks) ss =
     (if NUL \<in> set tok
      then replace_placeholder tok (opt_to_string (fst (pop ss))) # restore_all toks (snd (pop ss))
      else tok # restore_all toks ss)"

fun strings_left :: "string list \<Rightarrow> string list \<Rightarrow> string list" where
  "strings_left [] ss = ss"
| "strings_left (tok # toks) ss =
     (if NUL \<in> set tok then strings_left toks (snd (pop ss)) else strings_left toks ss)"

definition restored_tokens :: "string \<Rightarrow> string list" where
  "restored_tokens s =
     (case normalize s of (sels, strings) \<Rightarrow> restore_all (selector_tokens sels) strings)"

definition has_rejected_token :: "string \<Rightarrow> bool" where
  "has_rejected_token s = list_ex rejected_token (restored_tokens s)"

section \<open>Sample documents\<close>

text \<open>
  A page \<^verbatim>\<open><html><body><div id="a"><p></p>text<span></span><p></p></div></body></html>\<close>
  that defines no global variable, and the same page after it has defined a global
  \<^verbatim>\<open>element\<close>. The \<^verbatim>\<open>div\<close> is \<open>[0, 0, 0]\<close>, its children are \<open>[0, 0, 0, 0]\<close> to
  \<open>[3, 0, 0, 0]\<close>. The second child, written \<^verbatim>\<open>text\<close> above, is a text node whose
  data is empty.
\<close>

definition sample_dom :: dom where
  "sample_dom = \<lparr>root = DNode 9 ''#document'' []
      [DNode 1 ''HTML'' [(''id'', Str [])]
        [DNode 1 ''BODY'' [(''id'', Str [])]
          [DNode 1 ''DIV'' [(''id'', Str ''a'')]
            [DNode 1 ''P'' [(''id'', Str [])] [],
             DNode 3 ''#text'' [] [],
             DNode 1 ''SPAN'' [(''id'', Str [])] [],
             DNode 1 ''P'' [(''id'', Str [])] []]]]],
     location = True, globals = []\<rparr>"

definition sample_dom_with_global :: dom where
  "sample_dom_with_global = sample_dom\<lparr>globals := [(''element'', Undefined)]\<rparr>"

text \<open>A list of five items: \<^verbatim>\<open><html><body><ul>\<close> with five \<^verbatim>\<open><li>\<close>; the item at
  position \<open>k\<close> is \<open>[k - 1, 0, 0, 0]\<close>.\<close>

definition list_dom :: dom where
  "list_dom = \<lparr>root = DNode 9 ''#document'' []
      [DNode 1 ''HTML'' [(''id'', Str [])]
        [DNode 1 ''BODY'' [(''id'', Str [])]
          [DNode 1 ''UL'' [(''id'', Str [])]
            (replicate 5 (DNode 1 ''LI'' [(''id'', Str [])] []))]]],
     location = True, globals = []\<rparr>"

section \<open>Attribute predicates on an absent attribute\<close>

text \<open>
  C6. The claim: on an element whose named attribute is absent, each of the seven
  operators evaluates to non-match and never throws. The source guards four operators
  with \<^verbatim>\<open>attributeValue !== null\<close>, so the absent value it has in mind is \<open>Null\<close>; the
  token operator \<^verbatim>\<open>~=\<close> has no such guard and concatenates the value into a string.
  On an element whose property \<^verbatim>\<open>foo\<close> is \<open>Null\<close> the selector \<^verbatim>\<open>[foo~="null"]\<close>
  therefore matches. When the absent property reads \<open>Undefined\<close> instead, the presence
  operator matches and the prefix operator throws.
\<close>

theorem absent_attribute_includes_matches:
  "isMatchedByAttributeSelector ''~='' (\<lambda>a. Null) ''foo'' (Some ''null'') = Inr True
   \<and> isMatchedByAttributeSelector '''' (\<lambda>a. Undefined) ''foo'' None = Inr True
   \<and> isMatchedByAttributeSelector ''^='' (\<lambda>a. Undefined) ''foo'' (Some ''x'') = Inl TypeError"
  by (simp add: isMatchedByAttributeSelector_def indexOf_def)

section \<open>The subsequent-sibling combinator\<close>

text \<open>
  The step of \<^verbatim>\<open>~\<close> never looks at its compound selector: it gives the same result
  for any two of them.
\<close>

lemma subsequent_sibling_step_any_selector:
  "combinator_step d (Some c) cs (Some CHR ''~'') = combinator_step d (Some c) cs' (Some CHR ''~'')"
  by (simp add: combinator_step_def)

text \<open>
  C1. The claim: the step of \<^verbatim>\<open>~\<close> with compound selector \<open>c\<close> succeeds exactly when
  some preceding element sibling satisfies \<open>c\<close>. In the sample page the second
  \<^verbatim>\<open>p\<close> has the preceding siblings \<^verbatim>\<open>span\<close>, a text node and \<^verbatim>\<open>p\<close>, none of which
  satisfies \<^verbatim>\<open>div\<close>; yet \<^verbatim>\<open>find("div~p")\<close> returns it, because the step succeeds as
  soon as a preceding element sibling exists.
\<close>

theorem subsequent_sibling_without_matching_sibling:
  "find_sel sample_dom ''div~p'' NoContext = Inr [[3, 0, 0, 0]]
   \<and> map (\<lambda>s. isMatchedByCompoundSelector sample_dom (Some s)
          \<lparr>typeSelector = ''div'', idSelector = Some [], attributeSelectors = [],
           pseudoSelectors = []\<rparr>)
        (preceding_siblings [3, 0, 0, 0]) = [Inr False, Inr False, Inr False]"
  by code_simp

section \<open>Agreement of \<^verbatim>\<open>find\<close> and \<^verbatim>\<open>match\<close>\<close>

text \<open>
  C2. The claim: a node of the context that \<^verbatim>\<open>find(s, c)\<close> does not return fails
  \<^verbatim>\<open>match(n, s, c)\<close>. In the sample page \<^verbatim>\<open>find("div")\<close> returns the \<^verbatim>\<open>div\<close> alone,
  and \<^verbatim>\<open>match\<close> of the \<^verbatim>\<open>span\<close> against \<^verbatim>\<open>"div"\<close> is true: \<^verbatim>\<open>match\<close> hands the whole
  parsed selector to \<^verbatim>\<open>isMatchedByComplexSelector\<close>, which reads no combinator for
  the last compound selector and so never tests it.
\<close>

theorem match_accepts_node_find_rejects:
  "find_sel sample_dom ''div'' NoContext = Inr [[0, 0, 0]]
   \<and> [2, 0, 0, 0] \<in> set (map fst (descendants sample_dom document))
   \<and> match_sel sample_dom [2, 0, 0, 0] ''div'' NoContext = Inr True"
  by code_simp

section \<open>Totality of the compound matcher\<close>

text \<open>
  C3. The claim: \<^verbatim>\<open>isMatchedByCompoundSelector\<close> never throws on a compound selector
  that the parser accepts, \<^verbatim>\<open>:nth-of-type\<close> included. The parser accepts
  \<^verbatim>\<open>p:nth-of-type(2n+1)\<close>, and matching its compound selector against the first
  \<^verbatim>\<open>p\<close> of the sample page throws a \<open>ReferenceError\<close>: the table entry reads the
  variable \<^verbatim>\<open>tagName\<close>, which nothing declares.
\<close>

theorem nth_of_type_throws:
  "parseSelector ''p:nth-of-type(2n+1)'' =
     Inr [\<lparr>combinators = [], compoundSelectors =
            [\<lparr>typeSelector = ''p'', idSelector = Some [], attributeSelectors = [],
              pseudoSelectors = [\<lparr>name = ''nth-of-type'', parameter = Some ''2n+1''\<rparr>]\<rparr>]\<rparr>]
   \<and> isMatchedByCompoundSelector sample_dom (Some [0, 0, 0, 0])
        \<lparr>typeSelector = ''p'', idSelector = Some [], attributeSelectors = [],
         pseudoSelectors = [\<lparr>name = ''nth-of-type'', parameter = Some ''2n+1''\<rparr>]\<rparr>
       = Inl ReferenceError"
  by code_simp

section \<open>The \<^verbatim>\<open>An+B\<close> test\<close>

text \<open>
  C4. The claim: position \<open>p\<close> matches \<^verbatim>\<open>An+B\<close> exactly when \<open>A = 0\<close> and \<open>p = B\<close>, or
  \<open>A \<noteq> 0\<close> and \<open>p - B\<close> is a non-negative multiple of \<open>A\<close>; and \<^verbatim>\<open>:nth-child(-n+3)\<close>
  selects positions 1, 2, 3. In the list of five items, \<^verbatim>\<open>2n+3\<close> matches position 1,
  where \<open>p - B = -2\<close>; \<^verbatim>\<open>n+3\<close>, read by the source as \<open>A = 0\<close> and \<open>B = 3\<close>, does not
  match position 3; and the parser rejects \<^verbatim>\<open>-n+3\<close>.
\<close>

theorem nth_child_negative_offset_matches:
  "isNthChild list_dom (Some [0, 0, 0, 0]) (Some ''2n+3'') False Undefined = Inr True
   \<and> find_sel list_dom ''li:nth-child(2n+3)'' NoContext
       = Inr [[0, 0, 0, 0], [2, 0, 0, 0], [4, 0, 0, 0]]
   \<and> isNthChild list_dom (Some [2, 0, 0, 0]) (Some ''n+3'') False Undefined = Inr False
   \<and> find_sel list_dom ''li:nth-child(-n+3)'' NoContext = Inl TypeError"
  by code_simp

section \<open>The string table\<close>

text \<open>
  C5. The claim: every attribute value of the parsed selector is the quoted string
  written at its position, also with two or more quoted strings. For
  \<^verbatim>\<open>[a="x"][b="y"]\<close> the parser gives \<^verbatim>\<open>a\<close> the value \<open>y\<close> and \<^verbatim>\<open>b\<close> the value \<open>x\<close>:
  the strings are pushed left to right and popped from the end while the placeholders
  are restored left to right.
\<close>

theorem string_table_pairs_in_reverse:
  "parseSelector (''[a='' @ [DQUOTE] @ ''x'' @ [DQUOTE] @ ''][b='' @ [DQUOTE] @ ''y'' @ [DQUOTE] @ '']'')
   = Inr [\<lparr>combinators = [], compoundSelectors =
            [\<lparr>typeSelector = ''*'', idSelector = Some [],
              attributeSelectors =
                [\<lparr>attribute = ''a'', operator = ''='', attr_value = Some ''y''\<rparr>,
                 \<lparr>attribute = ''b'', operator = ''='', attr_value = Some ''x''\<rparr>],
              pseudoSelectors = []\<rparr>]\<rparr>]"
  by code_simp

section \<open>Malformed selectors\<close>

text \<open>
  The parser and the token grammar agree: \<^verbatim>\<open>parseSelector\<close> throws, and then a
  \<open>TypeError\<close>, exactly for the selector strings that hold a rejected token.
\<close>

lemma parse_simple_selector_rejected:
  "rejected_token tok \<Longrightarrow> parse_simple_selector tok cs = Inl TypeError"
  by (auto simp: rejected_token_def parse_simple_selector_def split: list.splits)

lemma parse_simple_selector_accepted:
  "\<not> rejected_token tok \<Longrightarrow> \<exists>cs'. parse_simple_selector tok cs = Inr cs'"
  by (auto simp: rejected_token_def parse_simple_selector_def split: list.splits option.splits)

lemma parse_simple_selectors_tokens:
  "if list_ex rejected_token (restore_all toks ss)
   then parse_simple_selectors toks (Some ss) cs = Inl TypeError
   else (\<exists>cs'. parse_simple_selectors toks (Some ss) cs = Inr (cs', Some (strings_left toks ss)))"
proof (induction toks arbitrary: ss cs)
  case Nil
  then show ?case by simp
next
  case (Cons tok toks)
  define tok' where "tok' = (if NUL \<in> set tok
      then replace_placeholder tok (opt_to_string (fst (pop ss))) else tok)"
  define ss' where "ss' = (if NUL \<in> set tok then snd (pop ss) else ss)"
  have r: "restore_placeholder (Some ss) tok = Inr (tok', Some ss')"
    by (auto simp: restore_placeholder_def tok'_def ss'_def split: prod.splits)
  have ra: "restore_all (tok # toks) ss = tok' # restore_all toks ss'"
    by (simp add: tok'_def ss'_def)
  have sl: "strings_left (tok # toks) ss = strings_left toks ss'"
    by (simp add: ss'_def)
  show ?case
  proof (cases "rejected_token tok'")
    case True
    then show ?thesis
      using r ra parse_simple_selector_rejected [of tok' cs] by simp
  next
    case False
    then obtain cs' where c: "parse_simple_selector tok' cs = Inr cs'"
      using parse_simple_selector_accepted by blast
    have "parse_simple_selectors (tok # toks) (Some ss) cs = parse_simple_selectors toks (Some ss') cs'"
      using r c by simp
    with Cons.IH [of ss' cs'] False ra sl show ?thesis by simp
  qed
qed

lemma restore_all_append:
  "restore_all (xs @ ys) ss = restore_all xs ss @ restore_all ys (strings_left xs ss)"
  by (induction xs arbitrary: ss) auto

lemma strings_left_append:
  "strings_left (xs @ ys) ss = strings_left ys (strings_left xs ss)"
  by (induction xs arbitrary: ss) auto

lemma parseCompoundSelector_tokens:
  "if list_ex rejected_token (restore_all (tl (simple_selectors piece)) ss)
   then parseCompoundSelector piece (Some ss) = Inl TypeError
   else (\<exists>c. parseCompoundSelector piece (Some ss)
          = Inr (c, Some (strings_left (tl (simple_selectors piece)) ss)))"
proof -
  obtain t toks where st: "simple_selectors piece = t # toks"
    using split_on_nonempty [of NEWLINE] by (cases "simple_selectors piece") (auto simp: simple_selectors_def)
  show ?thesis
    using parse_simple_selectors_tokens [of toks ss
        "\<lparr>typeSelector = t, idSelector = Some [], attributeSelectors = [], pseudoSelectors = []\<rparr>"]
    by (simp add: parseCompoundSelector_def st)
qed

lemma parse_compounds_tokens:
  "if list_ex rejected_token (restore_all (compound_tokens pieces) ss)
   then parse_compounds pieces (Some ss) = Inl TypeError
   else (\<exists>cs. parse_compounds pieces (Some ss)
          = Inr (cs, Some (strings_left (compound_tokens pieces) ss)))"
proof (induction pieces arbitrary: ss)
  case Nil
  then show ?case by (simp add: compound_tokens_def)
next
  case (Cons piece pieces)
  let ?toks = "tl (simple_selectors piece)"
  have ct: "compound_tokens (piece # pieces) = ?toks @ compound_tokens pieces"
    by (simp add: compound_tokens_def)
  show ?case
  proof (cases "list_ex rejected_token (restore_all ?toks ss)")
    case True
    with parseCompoundSelector_tokens [of piece ss] show ?thesis
      by (simp add: ct restore_all_append)
  next
    case False
    with parseCompoundSelector_tokens [of piece ss] obtain c where
      c: "parseCompoundSelector piece (Some ss) = Inr (c, Some (strings_left ?toks ss))"
      by auto
    show ?thesis
      using Cons.IH [of "strings_left ?toks ss"] False c
      by (auto simp: ct restore_all_append strings_left_append)
  qed
qed

lemma parse_selectors_tokens:
  "if list_ex rejected_token (restore_all (selector_tokens sels) ss)
   then parse_selectors sels (Some ss) = Inl TypeError
   else (\<exists>ps. parse_selectors sels (Some ss) = Inr ps)"
proof (induction sels arbitrary: ss)
  case Nil
  then show ?case by (simp add: selector_tokens_def)
next
  case (Cons sel sels)
  let ?toks = "compound_tokens (split_combinators sel)"
  have ct: "selector_tokens (sel # sels) = ?toks @ selector_tokens sels"
    by (simp add: selector_tokens_def)
  show ?case
  proof (cases "list_ex rejected_token (restore_all ?toks ss)")
    case True
    with parse_compounds_tokens [of "split_combinators sel" ss] show ?thesis
      by (simp add: ct restore_all_append)
  next
    case False
    with parse_compounds_tokens [of "split_combinators sel" ss] obtain cs where
      c: "parse_compounds (split_combinators sel) (Some ss) = Inr (cs, Some (strings_left ?toks ss))"
      by auto
    show ?thesis
      using Cons.IH [of "strings_left ?toks ss"] False c
      by (auto simp: ct restore_all_append)
  qed
qed

lemma parseSelector_tokens:
  "if has_rejected_token s then parseSelector s = Inl TypeError else (\<exists>ps. parseSelector s = Inr ps)"
  using parse_selectors_tokens
  by (auto simp: has_rejected_token_def restored_tokens_def parseSelector_def split: prod.splits)

text \<open>
  C7, as claimed: \<^verbatim>\<open>find\<close> of every malformed selector raises a \<open>ParseError\<close> that
  carries the offending fragment. For \<^verbatim>\<open>[bad\<close> it raises a \<open>TypeError\<close>: the token fails
  the attribute grammar, the regular expression yields \<^verbatim>\<open>null\<close>, and the parser reads
  \<^verbatim>\<open>attribute[1]\<close>. For \<^verbatim>\<open>bad]\<close>, whose bracket is unmatched as well, nothing is
  raised: the text has no token after its type selector, and \<^verbatim>\<open>find\<close> returns the empty
  list. The unrecognized pseudo-class of \<^verbatim>\<open>p:foo\<close> passes the parser; \<^verbatim>\<open>find\<close> returns
  the empty list on a page without \<^verbatim>\<open>p\<close>, and on a page with one the matcher throws.
\<close>

theorem malformed_selector_is_type_error:
  "find_sel sample_dom ''[bad'' NoContext = Inl TypeError
   \<and> find_sel sample_dom ''[bad'' NoContext \<noteq> Inl (ParseError ''[bad'')
   \<and> find_sel sample_dom ''bad]'' NoContext = Inr []
   \<and> parseSelector ''p:foo'' =
       Inr [\<lparr>combinators = [], compoundSelectors =
              [\<lparr>typeSelector = ''p'', idSelector = Some [], attributeSelectors = [],
                pseudoSelectors = [\<lparr>name = ''foo'', parameter = None\<rparr>]\<rparr>]\<rparr>]
   \<and> find_sel list_dom ''p:foo'' NoContext = Inr []
   \<and> find_sel sample_dom ''p:foo'' NoContext = Inl TypeError"
  by code_simp

text \<open>
  C7, amended: the selector strings that the parser rejects are those with a rejected
  token, that is a token, cut and restored as \<^verbatim>\<open>parseCompoundSelector\<close> does, that starts
  with \<^verbatim>\<open>[\<close> and fails the attribute grammar or starts with \<^verbatim>\<open>:\<close> and fails the
  pseudo-class grammar. For every such string \<^verbatim>\<open>parseSelector\<close> throws a \<open>TypeError\<close>, and
  \<^verbatim>\<open>find\<close> throws it for every document and every context argument, before it resolves
  the context or matches any node, and returns no result.
\<close>

theorem rejected_token_fails_before_matching:
  "(has_rejected_token s \<longleftrightarrow> (\<exists>e. parseSelector s = Inl e))
   \<and> (has_rejected_token s \<longrightarrow>
        parseSelector s = Inl TypeError \<and> find_sel d s ctx = Inl TypeError)"
  using parseSelector_tokens [of s]
  by (auto simp: find_sel_def bind_r_def split: if_splits)

text \<open>The theorem at \<^verbatim>\<open>[bad\<close>.\<close>

theorem rejected_token_fails_before_matching_witness:
  "has_rejected_token ''[bad''
   \<and> parseSelector ''[bad'' = Inl TypeError
   \<and> find_sel sample_dom ''[bad'' (SelectorContext ''p'') = Inl TypeError"
proof -
  have h: "has_rejected_token ''[bad''" by code_simp
  show ?thesis
    using h rejected_token_fails_before_matching [of "''[bad''" sample_dom "SelectorContext ''p''"]
    by simp
qed

section \<open>Candidates by id\<close>

text \<open>
  C8. The claim: with an id selector in the rightmost compound selector, \<^verbatim>\<open>find\<close>
  returns the looked-up node exactly when it satisfies the rest of the compound selector
  and is a descendant of the context, a direct child included. In a page that defines no
  global \<^verbatim>\<open>element\<close>, \<^verbatim>\<open>find("#a")\<close> throws a \<open>ReferenceError\<close> at the assignment to
  that undeclared variable. In a page that defines it, \<^verbatim>\<open>find("#a", body)\<close> is empty
  although the \<^verbatim>\<open>div\<close> with that id is a child of \<^verbatim>\<open>body\<close>: \<^verbatim>\<open>isDescendantOf\<close>
  starts its comparison at the grandparent. From \<^verbatim>\<open>html\<close>, the grandparent, the
  \<^verbatim>\<open>div\<close> is found.
\<close>

theorem id_lookup_throws_or_misses_child:
  "find_sel sample_dom ''#a'' NoContext = Inl ReferenceError
   \<and> find_sel sample_dom_with_global ''#a'' (NodeContext [0, 0]) = Inr []
   \<and> isDescendantOf sample_dom_with_global (Some [0, 0, 0]) [0, 0] = Inr False
   \<and> find_sel sample_dom_with_global ''#a'' (NodeContext [0]) = Inr [[0, 0, 0]]"
  by code_simp

section \<open>\<^verbatim>\<open>match\<close> and its context\<close>

lemma match_contexts_nonempty:
  "contexts \<noteq> [] \<Longrightarrow>
   match_contexts d element sel contexts = isMatchedByComplexSelector d element sel"
  by (induction contexts rule: list_nonempty_induct) (auto split: sum.splits)

lemma match_selectors_nonempty:
  "l1 \<noteq> [] \<Longrightarrow> l2 \<noteq> [] \<Longrightarrow>
   match_selectors d element ps l1 = match_selectors d element ps l2"
  by (induction ps) (simp_all add: match_contexts_nonempty split: sum.splits)

lemma match_selectors_empty: "match_selectors d element ps [] = Inr False"
  by (induction ps) simp_all

text \<open>
  C10, as claimed: \<^verbatim>\<open>match\<close> returns the same boolean for any two context arguments.
  With no context the \<^verbatim>\<open>div\<close> of the sample page matches \<^verbatim>\<open>"div"\<close>. With an empty
  node list, with the empty text node of the page or with a selector string that finds
  nothing as context, the loop over the contexts has no round and the result is false.
  With a context string that the parser rejects, \<^verbatim>\<open>match\<close> throws.
\<close>

theorem match_depends_on_context:
  "match_sel sample_dom [0, 0, 0] ''div'' NoContext = Inr True
   \<and> match_sel sample_dom [0, 0, 0] ''div'' (ListContext []) = Inr False
   \<and> match_sel sample_dom [0, 0, 0] ''div'' (NodeContext [1, 0, 0, 0]) = Inr False
   \<and> match_sel sample_dom [0, 0, 0] ''div'' (SelectorContext ''span p'') = Inr False
   \<and> match_sel sample_dom [0, 0, 0] ''div'' (SelectorContext ''[bad'') = Inl TypeError"
  by code_simp

text \<open>
  C10, amended: for every element and selector string and any two context arguments
  whose resolution does not throw, \<^verbatim>\<open>match\<close> gives the same result when the two
  resolved context lists are both non-empty or both empty; and for a context that
  resolves to the empty list the result is \<^verbatim>\<open>false\<close> when the selector parses, and the
  exception of the parser when it does not.
\<close>

theorem match_uses_context_emptiness_only:
  assumes "resolve_context d c1 = Inr l1" and "resolve_context d c2 = Inr l2"
  shows "((l1 = [] \<longleftrightarrow> l2 = []) \<longrightarrow>
            match_sel d element selector c1 = match_sel d element selector c2)
       \<and> (l1 = [] \<longrightarrow>
            match_sel d element selector c1 =
              (case parseSelector selector of Inl e \<Rightarrow> Inl e | Inr ps \<Rightarrow> Inr False))"
proof (intro conjI impI)
  assume e: "(l1 = []) = (l2 = [])"
  show "match_sel d element selector c1 = match_sel d element selector c2"
  proof (cases "l1 = []")
    case True
    with e assms show ?thesis by (simp add: match_sel_def bind_r_def)
  next
    case False
    with e have "l2 \<noteq> []" by simp
    with False assms match_selectors_nonempty [of l1 l2] show ?thesis
      by (auto simp: match_sel_def bind_r_def split: sum.splits)
  qed
next
  assume "l1 = []"
  with assms show "match_sel d element selector c1 =
      (case parseSelector selector of Inl e \<Rightarrow> Inl e | Inr ps \<Rightarrow> Inr False)"
    by (auto simp: match_sel_def bind_r_def match_selectors_empty split: sum.splits)
qed

text \<open>The theorem at two contexts that resolve to the empty list, and at two that
  resolve to one context each.\<close>

theorem match_uses_context_emptiness_only_witness:
  "resolve_context sample_dom (ListContext []) = Inr []
   \<and> resolve_context sample_dom (NodeContext [1, 0, 0, 0]) = Inr []
   \<and> match_sel sample_dom [0, 0, 0] ''div'' (ListContext [])
       = match_sel sample_dom [0, 0, 0] ''div'' (NodeContext [1, 0, 0, 0])
   \<and> match_sel sample_dom [0, 0, 0] ''div'' (ListContext []) = Inr False
   \<and> resolve_context sample_dom NoContext = Inr [Some []]
   \<and> resolve_context sample_dom (NodeContext [0, 0]) = Inr [Some [0, 0]]
   \<and> match_sel sample_dom [0, 0, 0] ''div'' NoContext
       = match_sel sample_dom [0, 0, 0] ''div'' (NodeContext [0, 0])"
proof -
  have h1: "resolve_context sample_dom (ListContext []) = Inr []" by code_simp
  have h2: "resolve_context sample_dom (NodeContext [1, 0, 0, 0]) = Inr []" by code_simp
  have h3: "resolve_context sample_dom NoContext = Inr [Some []]" by code_simp
  have h4: "resolve_context sample_dom (NodeContext [0, 0]) = Inr [Some [0, 0]]" by code_simp
  have p: "parseSelector ''div'' = Inr [\<lparr>combinators = [], compoundSelectors =
      [\<lparr>typeSelector = ''div'', idSelector = Some [], attributeSelectors = [],
        pseudoSelectors = []\<rparr>]\<rparr>]" by code_simp
  note t = match_uses_context_emptiness_only [OF h1 h2, of "[0, 0, 0]" "''div''"]
  from t have a: "match_sel sample_dom [0, 0, 0] ''div'' (ListContext [])
       = match_sel sample_dom [0, 0, 0] ''div'' (NodeContext [1, 0, 0, 0])"
    by blast
  from t have b: "match_sel sample_dom [0, 0, 0] ''div'' (ListContext [])
       = (case parseSelector ''div'' of Inl e \<Rightarrow> Inl e | Inr ps \<Rightarrow> Inr False)"
    by blast
  from b have c: "match_sel sample_dom [0, 0, 0] ''div'' (ListContext []) = Inr False"
    by (simp add: p)
  from match_uses_context_emptiness_only [OF h3 h4, of "[0, 0, 0]" "''div''"]
  have e: "match_sel sample_dom [0, 0, 0] ''div'' NoContext
       = match_sel sample_dom [0, 0, 0] ''div'' (NodeContext [0, 0])"
    by simp
  from h1 h2 a c h3 h4 e show ?thesis by (intro conjI)
qed

section \<open>The invariant of a parsed complex selector\<close>

lemma split_combinators_nonempty: "split_combinators s \<noteq> []"
  by (induction s) (auto split: list.splits)

lemma split_match_length: "length (split_combinators s) = Suc (length (match_combinators s))"
  using split_combinators_nonempty by (induction s) (auto split: list.splits)

lemma join_split_combinators: "join_compounds (split_combinators s) (match_combinators s) = s"
proof (induction s)
  case Nil
  then show ?case by simp
next
  case (Cons c s)
  obtain p ps where ps: "split_combinators s = p # ps"
    using split_combinators_nonempty [of s] by (cases "split_combinators s") auto
  show ?case
  proof (cases "is_combinator_at c s")
    case True
    with Cons ps show ?thesis by simp
  next
    case False
    with Cons ps show ?thesis by (cases ps; cases "match_combinators s") auto
  qed
qed

lemma parse_compounds_all2:
  "parse_compounds pieces st = Inr (cs, st') \<Longrightarrow>
   list_all2 (\<lambda>piece c. \<exists>st st'. parseCompoundSelector piece st = Inr (c, st')) pieces cs"
  by (induction pieces arbitrary: st cs) (auto split: sum.splits prod.splits)

lemma parse_selectors_member:
  "parse_selectors sels st = Inr ps \<Longrightarrow> p \<in> set ps \<Longrightarrow>
   \<exists>sel \<in> set sels. combinators p = match_combinators sel \<and>
     list_all2 (\<lambda>piece c. \<exists>st st'. parseCompoundSelector piece st = Inr (c, st'))
       (split_combinators sel) (compoundSelectors p)"
proof (induction sels arbitrary: st ps)
  case Nil
  then show ?case by simp
next
  case (Cons a sels)
  from Cons.prems(1) obtain cs st1 ps' where
    pc: "parse_compounds (split_combinators a) st = Inr (cs, st1)" and
    rest: "parse_selectors sels st1 = Inr ps'" and
    ps: "ps = \<lparr>combinators = match_combinators a, compoundSelectors = cs\<rparr> # ps'"
    by (auto split: sum.splits prod.splits)
  show ?case
  proof (cases "p \<in> set ps'")
    case True
    from Cons.IH [OF rest True] show ?thesis by auto
  next
    case False
    with Cons.prems(2) ps have "p = \<lparr>combinators = match_combinators a, compoundSelectors = cs\<rparr>"
      by simp
    with parse_compounds_all2 [OF pc] show ?thesis by simp
  qed
qed

lemma complex_loop_chain:
  "n \<le> length cs \<Longrightarrow> n \<le> length ks \<Longrightarrow>
   complex_loop d ks cs n cur = match_chain d (rev (zip (take n cs) (take n ks))) cur"
proof (induction n arbitrary: cur)
  case 0
  then show ?case by simp
next
  case (Suc n)
  then have "zip (take (Suc n) cs) (take (Suc n) ks) = zip (take n cs) (take n ks) @ [(cs ! n, ks ! n)]"
    by (simp add: take_Suc_conv_app_nth)
  with Suc show ?case by (simp split: sum.splits prod.splits)
qed


lemma cleared_id_same:
  "idSelector c = None \<or> idSelector c = Some [] \<Longrightarrow>
   isMatchedByCompoundSelector d el (c\<lparr>idSelector := None\<rparr>) = isMatchedByCompoundSelector d el c"
  by (auto simp: match_id_def split: sum.splits)

lemma filter_compound_sound:
  "filter_compound d c ns = Inr r \<Longrightarrow> n \<in> set r \<Longrightarrow>
   isMatchedByCompoundSelector d (Some n) c = Inr True"
  by (induction ns arbitrary: r) (auto split: sum.splits if_splits)

lemma filter_complex_sound:
  "filter_complex d sel ns = Inr r \<Longrightarrow> n \<in> set r \<Longrightarrow>
   n \<in> set ns \<and> isMatchedByComplexSelector d n sel = Inr True"
  by (induction ns arbitrary: r) (auto split: sum.splits if_splits)

lemma candidates_sound:
  assumes "candidates d lastCS ctx = Inr (els, lastCS')"
  shows "lastCS'\<lparr>idSelector := None\<rparr> = lastCS\<lparr>idSelector := None\<rparr>"
    and "\<forall>n \<in> set els. isMatchedByCompoundSelector d (Some n) (lastCS\<lparr>idSelector := None\<rparr>) = Inr True"
proof -
  show "lastCS'\<lparr>idSelector := None\<rparr> = lastCS\<lparr>idSelector := None\<rparr>"
    using assms by (auto simp: candidates_def Let_def split: if_splits sum.splits option.splits)
  show "\<forall>n \<in> set els. isMatchedByCompoundSelector d (Some n) (lastCS\<lparr>idSelector := None\<rparr>) = Inr True"
  proof (cases "idSelector lastCS \<noteq> None \<and> idSelector lastCS \<noteq> Some []")
    case True
    with assms show ?thesis
      by (auto simp: candidates_def Let_def split: if_splits sum.splits option.splits)
  next
    case False
    then have f: "idSelector lastCS = None \<or> idSelector lastCS = Some []" by auto
    from False assms obtain ns where "filter_compound d lastCS ns = Inr els"
      by (auto simp: candidates_def split: if_splits sum.splits option.splits)
    then show ?thesis using filter_compound_sound cleared_id_same [OF f] by metis
  qed
qed

lemma find_contexts_sound:
  "find_contexts d sel lastCS ctxs = Inr r \<Longrightarrow> n \<in> set r \<Longrightarrow>
   isMatchedByCompoundSelector d (Some n) (lastCS\<lparr>idSelector := None\<rparr>) = Inr True
   \<and> isMatchedByComplexSelector d n sel = Inr True"
proof (induction ctxs arbitrary: lastCS r)
  case Nil
  then show ?case by simp
next
  case (Cons c ctxs)
  from Cons.prems(1) obtain els lastCS' m r' where
    cand: "candidates d lastCS c = Inr (els, lastCS')" and
    flt: "filter_complex d sel els = Inr m" and
    rest: "find_contexts d sel lastCS' ctxs = Inr r'" and
    r: "r = m @ r'"
    by (auto split: sum.splits prod.splits)
  show ?case
  proof (cases "n \<in> set m")
    case True
    with filter_complex_sound [OF flt True] candidates_sound(2) [OF cand] show ?thesis by auto
  next
    case False
    with Cons.prems(2) r have "n \<in> set r'" by simp
    from Cons.IH [OF rest this] candidates_sound(1) [OF cand] show ?thesis by simp
  qed
qed

lemma find_selectors_sound:
  "find_selectors d ps ctxs = Inr r \<Longrightarrow> n \<in> set r \<Longrightarrow>
   \<exists>p \<in> set ps.
     isMatchedByCompoundSelector d (Some n)
       ((last (compoundSelectors p))\<lparr>idSelector := None\<rparr>) = Inr True
     \<and> isMatchedByComplexSelector d n
         (p\<lparr>compoundSelectors := butlast (compoundSelectors p)\<rparr>) = Inr True"
proof (induction ps arbitrary: r)
  case Nil
  then show ?case by simp
next
  case (Cons p ps)
  show ?case
  proof (cases "compoundSelectors p = []")
    case True
    with Cons.prems have "find_selectors d ps ctxs = Inr r"
      by (auto simp: pop_def split: if_splits)
    from Cons.IH [OF this Cons.prems(2)] show ?thesis by auto
  next
    case False
    with Cons.prems(1) obtain m r' where
      fc: "find_contexts d (p\<lparr>compoundSelectors := butlast (compoundSelectors p)\<rparr>)
             (last (compoundSelectors p)) ctxs = Inr m" and
      rest: "find_selectors d ps ctxs = Inr r'" and r: "r = m @ r'"
      by (auto simp: pop_def split: sum.splits)
    show ?thesis
    proof (cases "n \<in> set m")
      case True
      from find_contexts_sound [OF fc True] show ?thesis by auto
    next
      case False
      with Cons.prems(2) r have "n \<in> set r'" by simp
      from Cons.IH [OF rest this] show ?thesis by auto
    qed
  qed
qed

text \<open>
  What holds of the claim for every selector string that \<^verbatim>\<open>parseSelector\<close> parses:
  every parsed complex selector has one compound selector more than it has combinators;
  it comes from a piece of the normalized text that is its compound selector texts
  joined by its combinators, combinator \<open>i\<close> between compound selector \<open>i\<close> and compound
  selector \<open>i + 1\<close>; once \<^verbatim>\<open>find\<close> has detached the rightmost compound selector, the
  rest of the chain is matched from right to left, starting at the candidate; and every
  node that \<^verbatim>\<open>find\<close> returns passes that chain and satisfies the rightmost compound
  selector of the same parsed selector once its id selector is cleared.
\<close>

lemma parsed_selector_invariant:
  assumes "parseSelector s = Inr ps"
  shows "(\<forall>p \<in> set ps.
            length (compoundSelectors p) = length (combinators p) + 1
          \<and> (\<exists>sel \<in> set (fst (normalize s)).
                join_compounds (split_combinators sel) (combinators p) = sel
              \<and> list_all2 (\<lambda>piece c. \<exists>st st'. parseCompoundSelector piece st = Inr (c, st'))
                    (split_combinators sel) (compoundSelectors p))
          \<and> (\<forall>d n. isMatchedByComplexSelector d n
                       (p\<lparr>compoundSelectors := butlast (compoundSelectors p)\<rparr>)
                   = match_chain d (rev (zip (butlast (compoundSelectors p)) (combinators p)))
                       (Some n)))
       \<and> (\<forall>d ctx ns. find_sel d s ctx = Inr ns \<longrightarrow>
            (\<forall>n \<in> set ns. \<exists>p \<in> set ps.
               isMatchedByCompoundSelector d (Some n)
                 ((last (compoundSelectors p))\<lparr>idSelector := None\<rparr>) = Inr True
               \<and> match_chain d (rev (zip (butlast (compoundSelectors p)) (combinators p)))
                     (Some n) = Inr True))"
proof -
  have per: "length (compoundSelectors p) = length (combinators p) + 1
          \<and> (\<exists>sel \<in> set (fst (normalize s)).
                join_compounds (split_combinators sel) (combinators p) = sel
              \<and> list_all2 (\<lambda>piece c. \<exists>st st'. parseCompoundSelector piece st = Inr (c, st'))
                    (split_combinators sel) (compoundSelectors p))
          \<and> (\<forall>d n. isMatchedByComplexSelector d n
                       (p\<lparr>compoundSelectors := butlast (compoundSelectors p)\<rparr>)
                   = match_chain d (rev (zip (butlast (compoundSelectors p)) (combinators p)))
                       (Some n))" if p: "p \<in> set ps" for p
  proof -
    from assms obtain sels strings where n: "normalize s = (sels, strings)"
      and ps: "parse_selectors sels (Some strings) = Inr ps"
      by (auto simp: parseSelector_def split: prod.splits)
    from parse_selectors_member [OF ps p] obtain sel where
      sel: "sel \<in> set sels" and k: "combinators p = match_combinators sel" and
      a2: "list_all2 (\<lambda>piece c. \<exists>st st'. parseCompoundSelector piece st = Inr (c, st'))
             (split_combinators sel) (compoundSelectors p)"
      by blast
    from a2 have len: "length (compoundSelectors p) = length (split_combinators sel)"
      by (simp add: list_all2_lengthD)
    have l: "length (compoundSelectors p) = length (combinators p) + 1"
      using len k split_match_length [of sel] by simp
    have j: "\<exists>sel \<in> set (fst (normalize s)).
            join_compounds (split_combinators sel) (combinators p) = sel
          \<and> list_all2 (\<lambda>piece c. \<exists>st st'. parseCompoundSelector piece st = Inr (c, st'))
                (split_combinators sel) (compoundSelectors p)"
      using sel k a2 n join_split_combinators [of sel] by auto
    have "length (butlast (compoundSelectors p)) = length (combinators p)"
      using l by simp
    then have c: "isMatchedByComplexSelector d n (p\<lparr>compoundSelectors := butlast (compoundSelectors p)\<rparr>)
         = match_chain d (rev (zip (butlast (compoundSelectors p)) (combinators p))) (Some n)" for d n
      using complex_loop_chain [of "length (combinators p)" "butlast (compoundSelectors p)" "combinators p" d "Some n"]
      by (simp add: isMatchedByComplexSelector_def)
    from l j c show ?thesis by blast
  qed
  have fnd: "\<exists>p \<in> set ps.
               isMatchedByCompoundSelector d (Some n)
                 ((last (compoundSelectors p))\<lparr>idSelector := None\<rparr>) = Inr True
               \<and> match_chain d (rev (zip (butlast (compoundSelectors p)) (combinators p)))
                     (Some n) = Inr True"
    if f: "find_sel d s ctx = Inr ns" and n: "n \<in> set ns" for d ctx ns n
  proof -
    from f assms obtain ctxs where "find_selectors d ps ctxs = Inr ns"
      by (auto simp: find_sel_def bind_r_def split: sum.splits)
    from find_selectors_sound [OF this n] obtain p where
      "p \<in> set ps" and
      "isMatchedByCompoundSelector d (Some n)
         ((last (compoundSelectors p))\<lparr>idSelector := None\<rparr>) = Inr True" and
      "isMatchedByComplexSelector d n
         (p\<lparr>compoundSelectors := butlast (compoundSelectors p)\<rparr>) = Inr True"
      by blast
    with per [of p] show ?thesis by metis
  qed
  from per fnd show ?thesis by blast
qed

text \<open>
  C9. The claim: every parsed complex selector has one compound selector more than
  combinators, combinator \<open>i\<close> joining compound selectors \<open>i\<close> and \<open>i + 1\<close>, and the chain
  is matched right to left with the rightmost compound selector matching the candidate
  node itself. The first two parts hold (\<open>parsed_selector_invariant\<close>). The last one
  fails in both entry points. \<^verbatim>\<open>match\<close> does not detach the rightmost compound selector
  and never tests it: \<^verbatim>\<open>"div"\<close> parses to the single compound selector \<^verbatim>\<open>div\<close>, the
  \<^verbatim>\<open>span\<close> of the sample page does not satisfy it, and \<^verbatim>\<open>match(span, "div")\<close> is true.
  \<^verbatim>\<open>find\<close> clears the id selector of the rightmost compound selector in the first
  context, so with the contexts \<^verbatim>\<open>[html, body]\<close> the call \<^verbatim>\<open>find("#a", ...)\<close> returns,
  from the second context, every element below \<^verbatim>\<open>body\<close>; the \<^verbatim>\<open>span\<close> among them does
  not satisfy \<^verbatim>\<open>#a\<close>.
\<close>

theorem rightmost_compound_not_matched:
  "parseSelector ''div'' =
     Inr [\<lparr>combinators = [], compoundSelectors =
            [\<lparr>typeSelector = ''div'', idSelector = Some [], attributeSelectors = [],
              pseudoSelectors = []\<rparr>]\<rparr>]
   \<and> match_sel sample_dom [2, 0, 0, 0] ''div'' NoContext = Inr True
   \<and> isMatchedByCompoundSelector sample_dom (Some [2, 0, 0, 0])
        \<lparr>typeSelector = ''div'', idSelector = Some [], attributeSelectors = [],
         pseudoSelectors = []\<rparr> = Inr False
   \<and> parseSelector ''#a'' =
     Inr [\<lparr>combinators = [], compoundSelectors =
            [\<lparr>typeSelector = ''*'', idSelector = Some ''a'', attributeSelectors = [],
              pseudoSelectors = []\<rparr>]\<rparr>]
   \<and> find_sel sample_dom_with_global ''#a'' (ListContext [[0], [0, 0]])
       = Inr [[0, 0, 0], [0, 0, 0], [0, 0, 0, 0], [2, 0, 0, 0], [3, 0, 0, 0]]
   \<and> isMatchedByCompoundSelector sample_dom_with_global (Some [2, 0, 0, 0])
        \<lparr>typeSelector = ''*'', idSelector = Some ''a'', attributeSelectors = [],
         pseudoSelectors = []\<rparr> = Inr False"
  by code_simp

end
